theory Spec2Isabelle
  imports Complex_Main
begin

section \<open>JavaScript values of the dashboard\<close>

text \<open>
  The payloads the dashboard receives are the results of \<^verbatim>\<open>response.json()\<close>: arbitrary
  JSON values. \<open>JUndefined\<close> is what reading an absent property gives, \<open>JNaN\<close> the
  not-a-number value, \<open>JFunction\<close> a built-in method read as a property (only its
  truthiness matters). Numbers are reals: payload numbers are only passed on or tested
  for truthiness; the two places that compute with them call the platform (see
  \<open>platform\<close> below). Strings are lists of code units.
\<close>

datatype jsval =
    JUndefined
  | JNull
  | JBool bool
  | JNum real
  | JNaN
  | JStr string
  | JArr "jsval list"
  | JObj "(string \<times> jsval) list"
  | JFunction string

text \<open>
  Errors that can be thrown. \<^verbatim>\<open>new Error(v)\<close> keeps \<^verbatim>\<open>String(v)\<close> as its message: the
  text itself for a string, the string conversion of the value otherwise. The wording of
  an error raised by the engine (a \<^verbatim>\<open>TypeError\<close> on \<^verbatim>\<open>undefined.split\<close>, the
  \<^verbatim>\<open>SyntaxError\<close> of a body that is not JSON, the rejection of \<^verbatim>\<open>fetch\<close>) is the
  engine's own.
\<close>

datatype engine_error = TypeError | SyntaxError | FetchFailed

datatype message = Text string | StringOf jsval | EngineText engine_error

datatype js_error = Error message | Thrown engine_error

definition new_Error :: "jsval \<Rightarrow> js_error" where
  "new_Error v = Error (case v of JStr s \<Rightarrow> Text s | _ \<Rightarrow> StringOf v)"

definition error_message :: "js_error \<Rightarrow> message" where
  "error_message e = (case e of Error m \<Rightarrow> m | Thrown k \<Rightarrow> EngineText k)"

text \<open>\<^verbatim>\<open>!v\<close> is \<open>\<not> truthy v\<close>; \<^verbatim>\<open>a || b\<close> is \<open>js_or a b\<close>.\<close>

fun truthy :: "jsval \<Rightarrow> bool" where
  "truthy JUndefined = False"
| "truthy JNull = False"
| "truthy (JBool b) = b"
| "truthy (JNum x) = (x \<noteq> 0)"
| "truthy JNaN = False"
| "truthy (JStr s) = (s \<noteq> [])"
| "truthy (JArr xs) = True"
| "truthy (JObj kvs) = True"
| "truthy (JFunction f) = True"

definition js_or :: "jsval \<Rightarrow> jsval \<Rightarrow> jsval" where
  "js_or a b = (if truthy a then a else b)"

definition nullish :: "jsval \<Rightarrow> bool" where
  "nullish v = (v = JUndefined \<or> v = JNull)"

text \<open>
  \<^verbatim>\<open>v.name\<close> for a value that is neither \<^verbatim>\<open>null\<close> nor \<^verbatim>\<open>undefined\<close>, for the property
  names this program reads (\<^verbatim>\<open>valid_date\<close>, the measurement fields, \<^verbatim>\<open>parameters\<close>,
  \<^verbatim>\<open>times\<close>, \<^verbatim>\<open>values\<close>, \<^verbatim>\<open>daily_data\<close>, \<^verbatim>\<open>created_at\<close>, \<^verbatim>\<open>length\<close>, \<^verbatim>\<open>success\<close>,
  \<^verbatim>\<open>detail\<close>, \<^verbatim>\<open>data\<close>): an object gives its own property, an array and a string their
  \<^verbatim>\<open>length\<close>, and an array its built-in \<^verbatim>\<open>values\<close> method.
\<close>

definition js_prop :: "jsval \<Rightarrow> string \<Rightarrow> jsval" where
  "js_prop v name =
     (case v of
        JObj kvs \<Rightarrow> (case map_of kvs name of Some x \<Rightarrow> x | None \<Rightarrow> JUndefined)
      | JArr xs \<Rightarrow>
          (if name = ''length'' then JNum (real (length xs))
           else if name = ''values'' then JFunction ''values''
           else JUndefined)
      | JStr s \<Rightarrow> (if name = ''length'' then JNum (real (length s)) else JUndefined)
      | _ \<Rightarrow> JUndefined)"

text \<open>\<^verbatim>\<open>v.name\<close> in general: reading a property of \<^verbatim>\<open>null\<close> or \<^verbatim>\<open>undefined\<close> throws.\<close>

definition js_get :: "jsval \<Rightarrow> string \<Rightarrow> js_error + jsval" where
  "js_get v name = (if nullish v then Inl (Thrown TypeError) else Inr (js_prop v name))"

section \<open>Strings, numbers and dates of the platform\<close>

definition digit_char :: "nat \<Rightarrow> char" where
  "digit_char n = ''0123456789'' ! (n mod 10)"

fun string_of_nat :: "nat \<Rightarrow> string" where
  "string_of_nat n =
     (if n < 10 then [digit_char n] else string_of_nat (n div 10) @ [digit_char (n mod 10)])"

declare string_of_nat.simps [simp del]

definition string_of_int :: "int \<Rightarrow> string" where
  "string_of_int i = (if i < 0 then CHR ''-'' # string_of_nat (nat (- i)) else string_of_nat (nat i))"

text \<open>\<^verbatim>\<open>s.padStart(2, '0')\<close>\<close>

definition padStart2 :: "string \<Rightarrow> string" where
  "padStart2 s = replicate (2 - length s) (CHR ''0'') @ s"

text \<open>\<^verbatim>\<open>s.split('-')\<close>: the pieces between the separators, at least one piece.\<close>

fun split_on :: "char \<Rightarrow> string \<Rightarrow> string list" where
  "split_on sep [] = [[]]"
| "split_on sep (c # cs) =
     (if c = sep then [] # split_on sep cs
      else (case split_on sep cs of p # ps \<Rightarrow> (c # p) # ps | [] \<Rightarrow> [[c]]))"

text \<open>
  \<^verbatim>\<open>v.split('-')\<close> for a payload value: only a string has the method; calling it on
  anything else is a \<^verbatim>\<open>TypeError\<close>.
\<close>

definition js_split :: "jsval \<Rightarrow> js_error + string list" where
  "js_split v = (case v of JStr s \<Rightarrow> Inr (split_on (CHR ''-'') s) | _ \<Rightarrow> Inl (Thrown TypeError))"

text \<open>
  \<^verbatim>\<open>parseInt(s)\<close> without a radix, \<open>None\<close> for \<^verbatim>\<open>NaN\<close>: leading white space is skipped,
  a sign is read, a \<^verbatim>\<open>0x\<close> prefix selects radix 16, and the longest prefix of digits is the
  value; \<^verbatim>\<open>NaN\<close> when there is no digit. The result is exact (as the double is below
  \<open>2^53\<close>).
\<close>

definition is_white :: "char \<Rightarrow> bool" where
  "is_white c = (c \<in> set [CHR 0x20, CHR 0x09, CHR 0x0A, CHR 0x0B, CHR 0x0C, CHR 0x0D])"

fun index_of :: "char \<Rightarrow> string \<Rightarrow> nat option" where
  "index_of c [] = None"
| "index_of c (d # ds) = (if c = d then Some 0 else map_option Suc (index_of c ds))"

definition digit_val :: "nat \<Rightarrow> char \<Rightarrow> nat option" where
  "digit_val radix c =
     (case index_of c ''0123456789abcdef'' of
        Some d \<Rightarrow> (if d < radix then Some d else None)
      | None \<Rightarrow>
          (case index_of c ''ABCDEF'' of
             Some d \<Rightarrow> (if d + 10 < radix then Some (d + 10) else None)
           | None \<Rightarrow> None))"

definition digits_value :: "nat \<Rightarrow> string \<Rightarrow> nat" where
  "digits_value radix z = foldl (\<lambda>acc c. acc * radix + (case digit_val radix c of Some d \<Rightarrow> d | None \<Rightarrow> 0)) 0 z"

definition parseInt :: "string \<Rightarrow> int option" where
  "parseInt s =
     (let s1 = dropWhile is_white s;
          neg = (s1 \<noteq> [] \<and> hd s1 = CHR ''-'');
          s2 = (if s1 \<noteq> [] \<and> (hd s1 = CHR ''-'' \<or> hd s1 = CHR ''+'') then tl s1 else s1);
          hex = (take 2 s2 = ''0x'' \<or> take 2 s2 = ''0X'');
          radix = (if hex then 16 else 10);
          s3 = (if hex then drop 2 s2 else s2);
          z = takeWhile (\<lambda>c. digit_val radix c \<noteq> None) s3
      in if z = [] then None
         else Some ((if neg then - 1 else 1) * int (digits_value radix z)))"

text \<open>\<^verbatim>\<open>parseInt(dateParts[i])\<close>: an index past the end reads \<^verbatim>\<open>undefined\<close>, which parses to \<^verbatim>\<open>NaN\<close>.\<close>

definition parseInt_at :: "string list \<Rightarrow> nat \<Rightarrow> int option" where
  "parseInt_at parts i = (if i < length parts then parseInt (parts ! i) else None)"

text \<open>
  Days since 1970-01-01 of a proleptic Gregorian date (month \<open>1..12\<close>) and back, and
  \<^verbatim>\<open>Date.UTC(year, month, day)\<close> as ECMAScript defines it (\<open>None\<close> is \<^verbatim>\<open>NaN\<close>): a year
  \<open>0..99\<close> means \<open>1900 + year\<close>, the month is zero-based and carries into the year, the
  day of the month is added to the first of the month, and a time value beyond
  \<open>\<plusminus>8.64e15\<close> ms is \<^verbatim>\<open>NaN\<close>.
\<close>

definition days_from_civil :: "int \<Rightarrow> int \<Rightarrow> int \<Rightarrow> int" where
  "days_from_civil y m d =
     (let y1 = (if m \<le> 2 then y - 1 else y);
          era = y1 div 400;
          yoe = y1 - era * 400;
          mp = (m + 9) mod 12;
          doy = (153 * mp + 2) div 5 + d - 1;
          doe = yoe * 365 + yoe div 4 - yoe div 100 + doy
      in era * 146097 + doe - 719468)"

definition civil_from_days :: "int \<Rightarrow> int \<times> int \<times> int" where
  "civil_from_days z =
     (let z1 = z + 719468;
          era = z1 div 146097;
          doe = z1 - era * 146097;
          yoe = (doe - doe div 1460 + doe div 36524 - doe div 146096) div 365;
          doy = doe - (365 * yoe + yoe div 4 - yoe div 100);
          mp = (5 * doy + 2) div 153;
          d = doy - (153 * mp + 2) div 5 + 1;
          m = (if mp < 10 then mp + 3 else mp - 9);
          y = yoe + era * 400
      in (if m \<le> 2 then y + 1 else y, m, d))"

definition msPerDay :: int where
  "msPerDay = 86400000"

definition Date_UTC :: "int option \<Rightarrow> int option \<Rightarrow> int option \<Rightarrow> int option" where
  "Date_UTC year month day =
     (case (year, month, day) of
        (Some y, Some m, Some dt) \<Rightarrow>
          (let yr = (if 0 \<le> y \<and> y \<le> 99 then 1900 + y else y);
               ym = yr + m div 12;
               mn = m mod 12;
               tv = (days_from_civil ym (mn + 1) 1 + dt - 1) * msPerDay
           in if \<bar>tv\<bar> \<le> 8640000000000000 then Some tv else None)
      | _ \<Rightarrow> None)"

definition month_short :: "int \<Rightarrow> string" where
  "month_short m =
     [''Jan'', ''Feb'', ''Mar'', ''Apr'', ''May'', ''Jun'',
      ''Jul'', ''Aug'', ''Sep'', ''Oct'', ''Nov'', ''Dec''] ! nat ((m - 1) mod 12)"

text \<open>
  \<^verbatim>\<open>date.toLocaleDateString("en-US", {month: "short", day: "numeric", timeZone: "UTC"})\<close>
  of a time value: the UTC calendar day the time value falls on, as \<^verbatim>\<open>Nov 12\<close>. The time
  zone of the browser is no input of it.
\<close>

definition toLocaleDateString_month_day :: "int option \<Rightarrow> string" where
  "toLocaleDateString_month_day tv =
     (case tv of
        None \<Rightarrow> ''Invalid Date''
      | Some t \<Rightarrow>
          (case civil_from_days (t div msPerDay) of
             (y, m, d) \<Rightarrow> month_short m @ '' '' @ string_of_int d))"

text \<open>
  \<^verbatim>\<open>date.toLocaleDateString("en-US", {month: "short", year: "2-digit", timeZone: "UTC"})\<close>:
  \<^verbatim>\<open>Jan 22\<close>, the year of the era in two digits.
\<close>

definition toLocaleDateString_month_year :: "int option \<Rightarrow> string" where
  "toLocaleDateString_month_year tv =
     (case tv of
        None \<Rightarrow> ''Invalid Date''
      | Some t \<Rightarrow>
          (case civil_from_days (t div msPerDay) of
             (y, m, d) \<Rightarrow>
               month_short m @ '' '' @
               padStart2 (string_of_int ((if y \<le> 0 then 1 - y else y) mod 100))))"

text \<open>
  The block every daily transformer repeats for each record \<^verbatim>\<open>day\<close>:
  \<^verbatim>\<open>
    const dateParts = day.valid_date.split('-');
    const year = parseInt(dateParts[0]);
    const month = parseInt(dateParts[1]) - 1;
    const dayNum = parseInt(dateParts[2]);
    const date = new Date(Date.UTC(year, month, dayNum));
    const label = date.toLocaleDateString("en-US", {...});
  \<close>
  with the formatting options as the parameter \<open>fmt\<close>.
\<close>

definition valid_date_label :: "(int option \<Rightarrow> string) \<Rightarrow> jsval \<Rightarrow> js_error + string" where
  "valid_date_label fmt day =
     (case js_get day ''valid_date'' of
        Inl e \<Rightarrow> Inl e
      | Inr vd \<Rightarrow>
          (case js_split vd of
             Inl e \<Rightarrow> Inl e
           | Inr dateParts \<Rightarrow>
               (let year = parseInt_at dateParts 0;
                    month = map_option (\<lambda>m. m - 1) (parseInt_at dateParts 1);
                    dayNum = parseInt_at dateParts 2
                in Inr (fmt (Date_UTC year month dayNum)))))"

section \<open>Charts\<close>

text \<open>
  A Chart.js instance, as far as the dashboard touches it: \<^verbatim>\<open>chart.data.labels\<close>, the
  list \<^verbatim>\<open>chart.data.datasets\<close> with each dataset's \<^verbatim>\<open>data\<close> (and the twin sequences
  \<^verbatim>\<open>windDirections\<close>, \<^verbatim>\<open>waveDirections\<close> that two charts attach for their tooltips), and
  what \<^verbatim>\<open>chart.update()\<close> last painted from them.
\<close>

record dataset =
  data :: jsval
  windDirections :: jsval
  waveDirections :: jsval

record chart =
  labels :: jsval
  datasets :: "dataset list"
  painted :: "jsval \<times> dataset list"

text \<open>One constructor per module-level chart variable that has an update function.\<close>

datatype widget =
    weatherDailyChart
  | weatherPrecipChart
  | weatherWindChart
  | weatherUvChart
  | weatherHourlyTempChart
  | weatherHourlyPrecipChart
  | weatherHourlyWindChart
  | airQualityAqiChart
  | airQualityPollutantsChart
  | airQualitySecondaryChart
  | marineDailyWaveChart
  | marineDailyPeriodChart
  | marineHourlyWaveChart
  | marineHourlyPeriodChart
  | satelliteDailyRadiationChart
  | satelliteDailyIrradianceChart
  | climateTempTrendsChart
  | climatePrecipHumidityChart
  | climateWindRadiationChart

text \<open>The module-level variables: \<open>None\<close> is \<^verbatim>\<open>null\<close>, the value each is declared with.\<close>

type_synonym charts = "widget \<Rightarrow> chart option"

definition no_charts :: charts where
  "no_charts = (\<lambda>w. None)"

text \<open>
  The \<^verbatim>\<open>createXChart()\<close> functions differ in the canvas they look up, the styling and the
  number of datasets they give \<^verbatim>\<open>new Chart\<close>; every dataset starts with \<^verbatim>\<open>data: []\<close> and
  \<^verbatim>\<open>labels\<close> with \<^verbatim>\<open>[]\<close>. Without its canvas a create function returns and leaves the
  variable as it was.
\<close>

definition n_datasets :: "widget \<Rightarrow> nat" where
  "n_datasets w =
     (case w of
        weatherHourlyWindChart \<Rightarrow> 1
      | airQualityPollutantsChart \<Rightarrow> 4
      | marineDailyWaveChart \<Rightarrow> 3
      | marineHourlyWaveChart \<Rightarrow> 3
      | satelliteDailyRadiationChart \<Rightarrow> 3
      | satelliteDailyIrradianceChart \<Rightarrow> 3
      | climateTempTrendsChart \<Rightarrow> 3
      | _ \<Rightarrow> 2)"

definition empty_dataset :: dataset where
  "empty_dataset = \<lparr>data = JArr [], windDirections = JUndefined, waveDirections = JUndefined\<rparr>"

definition new_Chart :: "nat \<Rightarrow> chart" where
  "new_Chart n =
     \<lparr>labels = JArr [], datasets = replicate n empty_dataset,
      painted = (JArr [], replicate n empty_dataset)\<rparr>"

definition createChart :: "bool \<Rightarrow> widget \<Rightarrow> charts \<Rightarrow> charts" where
  "createChart canvas_found w cs =
     (if \<not> canvas_found then cs else cs(w \<mapsto> new_Chart (n_datasets w)))"

text \<open>\<^verbatim>\<open>initializeWeatherCharts()\<close> on a page that has every canvas.\<close>

definition initializeWeatherCharts :: "charts \<Rightarrow> charts" where
  "initializeWeatherCharts cs =
     foldl (\<lambda>c w. createChart True w c) cs
       [weatherDailyChart, weatherPrecipChart, weatherUvChart, weatherWindChart,
        weatherHourlyPrecipChart, weatherHourlyWindChart, weatherHourlyTempChart,
        airQualityAqiChart, airQualityPollutantsChart, airQualitySecondaryChart,
        marineDailyPeriodChart, marineDailyWaveChart, marineHourlyPeriodChart,
        marineHourlyWaveChart, satelliteDailyIrradianceChart, satelliteDailyRadiationChart,
        climatePrecipHumidityChart, climateTempTrendsChart, climateWindRadiationChart]"

text \<open>
  The assignments an update function ends with, for example
  \<^verbatim>\<open>
    weatherDailyChart.data.labels = labels;
    weatherDailyChart.data.datasets[0].data = maxTemps;
    weatherDailyChart.data.datasets[1].data = minTemps;
    weatherDailyChart.update();
  \<close>
  run in order. \<^verbatim>\<open>datasets[k]\<close> past the end is \<^verbatim>\<open>undefined\<close>, and assigning to a property
  of it throws, with the earlier assignments done and \<^verbatim>\<open>update()\<close> not reached.
\<close>

datatype target = Labels | DatasetData nat | DatasetWindDirections nat | DatasetWaveDirections nat

definition dataset_index :: "target \<Rightarrow> nat option" where
  "dataset_index t =
     (case t of
        Labels \<Rightarrow> None
      | DatasetData k \<Rightarrow> Some k
      | DatasetWindDirections k \<Rightarrow> Some k
      | DatasetWaveDirections k \<Rightarrow> Some k)"

definition assign_dataset :: "target \<Rightarrow> jsval \<Rightarrow> dataset \<Rightarrow> dataset" where
  "assign_dataset t v d =
     (case t of
        Labels \<Rightarrow> d
      | DatasetData k \<Rightarrow> d\<lparr>data := v\<rparr>
      | DatasetWindDirections k \<Rightarrow> d\<lparr>windDirections := v\<rparr>
      | DatasetWaveDirections k \<Rightarrow> d\<lparr>waveDirections := v\<rparr>)"

definition assign :: "target \<Rightarrow> jsval \<Rightarrow> chart \<Rightarrow> js_error + chart" where
  "assign t v ch =
     (case dataset_index t of
        None \<Rightarrow> Inr (ch\<lparr>labels := v\<rparr>)
      | Some k \<Rightarrow>
          (if k < length (datasets ch)
           then Inr (ch\<lparr>datasets := (datasets ch)[k := assign_dataset t v (datasets ch ! k)]\<rparr>)
           else Inl (Thrown TypeError)))"

fun assign_all :: "(target \<times> jsval) list \<Rightarrow> chart \<Rightarrow> chart \<times> js_error option" where
  "assign_all [] ch = (ch, None)"
| "assign_all ((t, v) # ws) ch =
     (case assign t v ch of
        Inl e \<Rightarrow> (ch, Some e)
      | Inr ch' \<Rightarrow> assign_all ws ch')"

definition chart_update :: "chart \<Rightarrow> chart" where
  "chart_update ch = ch\<lparr>painted := (labels ch, datasets ch)\<rparr>"

text \<open>
  An update function returns the chart variables as it leaves them and \<open>None\<close> when it
  returns, \<open>Some e\<close> when it throws \<open>e\<close>.
\<close>

definition commit :: "widget \<Rightarrow> (target \<times> jsval) list \<Rightarrow> charts \<Rightarrow> charts \<times> js_error option" where
  "commit w writes cs =
     (case cs w of
        None \<Rightarrow> (cs, Some (Thrown TypeError))
      | Some ch \<Rightarrow>
          (case assign_all writes ch of
             (ch', Some e) \<Rightarrow> (cs(w \<mapsto> ch'), Some e)
           | (ch', None) \<Rightarrow> (cs(w \<mapsto> chart_update ch'), None)))"

text \<open>
  \<^verbatim>\<open>apiData.forEach((day) => {...})\<close> where the body pushes one label and one value per
  series: only an array has \<^verbatim>\<open>forEach\<close>; a throw in the body leaves the loop, and the
  local arrays are lost. A row is the label with the values pushed.
\<close>

fun each :: "(jsval \<Rightarrow> js_error + 'a) \<Rightarrow> jsval list \<Rightarrow> js_error + 'a list" where
  "each f [] = Inr []"
| "each f (x # xs) =
     (case f x of
        Inl e \<Rightarrow> Inl e
      | Inr y \<Rightarrow> (case each f xs of Inl e \<Rightarrow> Inl e | Inr ys \<Rightarrow> Inr (y # ys)))"

definition js_forEach :: "jsval \<Rightarrow> (jsval \<Rightarrow> js_error + 'a) \<Rightarrow> js_error + 'a list" where
  "js_forEach v f = (case v of JArr xs \<Rightarrow> each f xs | _ \<Rightarrow> Inl (Thrown TypeError))"

definition row :: "(int option \<Rightarrow> string) \<Rightarrow> jsval \<Rightarrow> jsval list \<Rightarrow> js_error + (string \<times> jsval list)" where
  "row fmt day pushed =
     (case valid_date_label fmt day of Inl e \<Rightarrow> Inl e | Inr label \<Rightarrow> Inr (label, pushed))"

definition labels_of :: "(string \<times> jsval list) list \<Rightarrow> jsval" where
  "labels_of rows = JArr (map (\<lambda>r. JStr (fst r)) rows)"

definition series :: "nat \<Rightarrow> (string \<times> jsval list) list \<Rightarrow> jsval" where
  "series k rows = JArr (map (\<lambda>r. snd r ! k) rows)"

section \<open>The chart update functions\<close>

text \<open>
  What the update functions ask of the browser beyond the above: reading the local hour
  of a timestamp (\<^verbatim>\<open>new Date(t).getHours()\<close>, \<open>None\<close> for \<^verbatim>\<open>NaN\<close>), parsing a date
  (\<^verbatim>\<open>new Date(v).getTime()\<close>), the double arithmetic of
  \<^verbatim>\<open>parseFloat((v / d).toFixed(n))\<close>, and the order \<^verbatim>\<open>Array.prototype.sort\<close> leaves when
  its comparator returns \<^verbatim>\<open>NaN\<close>.
\<close>

record platform =
  getHours :: "jsval \<Rightarrow> nat option"
  getTime :: "jsval \<Rightarrow> int option"
  div_toFixed :: "jsval \<Rightarrow> real \<Rightarrow> nat \<Rightarrow> jsval"
  sort_unordered :: "jsval list \<Rightarrow> jsval list"

subsection \<open>Daily weather and marine charts\<close>

definition updateWeatherPrecipChart :: "charts \<Rightarrow> jsval \<Rightarrow> charts \<times> js_error option" where
  "updateWeatherPrecipChart cs apiData =
     (if cs weatherPrecipChart = None then (cs, None)
      else if \<not> truthy apiData \<or> js_prop apiData ''length'' = JNum 0 then (cs, None)
      else
        (case js_forEach apiData
                (\<lambda>day. row toLocaleDateString_month_day day
                   [js_or (js_prop day ''precipitation_sum'') (JNum 0),
                    js_or (js_prop day ''precipitation_probability_max'') (JNum 0)]) of
           Inl e \<Rightarrow> (cs, Some e)
         | Inr rows \<Rightarrow>
             commit weatherPrecipChart
               [(Labels, labels_of rows), (DatasetData 0, series 0 rows), (DatasetData 1, series 1 rows)] cs))"

definition updateWeatherDailyChart :: "charts \<Rightarrow> jsval \<Rightarrow> charts \<times> js_error option" where
  "updateWeatherDailyChart cs apiData =
     (if cs weatherDailyChart = None then (cs, None)
      else if \<not> truthy apiData \<or> js_prop apiData ''length'' = JNum 0 then (cs, None)
      else
        (case js_forEach apiData
                (\<lambda>day. row toLocaleDateString_month_day day
                   [js_or (js_prop day ''temperature_2m_max'') JNull,
                    js_or (js_prop day ''temperature_2m_min'') JNull]) of
           Inl e \<Rightarrow> (cs, Some e)
         | Inr rows \<Rightarrow>
             commit weatherDailyChart
               [(Labels, labels_of rows), (DatasetData 0, series 0 rows), (DatasetData 1, series 1 rows)] cs))"

definition updateWeatherWindChart :: "charts \<Rightarrow> jsval \<Rightarrow> charts \<times> js_error option" where
  "updateWeatherWindChart cs apiData =
     (if cs weatherWindChart = None then (cs, None)
      else if \<not> truthy apiData \<or> js_prop apiData ''length'' = JNum 0 then (cs, None)
      else
        (case js_forEach apiData
                (\<lambda>day. row toLocaleDateString_month_day day
                   [js_or (js_prop day ''wind_speed_10m_max'') (JNum 0),
                    js_or (js_prop day ''wind_gusts_10m_max'') (JNum 0)]) of
           Inl e \<Rightarrow> (cs, Some e)
         | Inr rows \<Rightarrow>
             commit weatherWindChart
               [(Labels, labels_of rows), (DatasetData 0, series 0 rows), (DatasetData 1, series 1 rows)] cs))"

text \<open>
  \<^verbatim>\<open>
    const sunshineInHours = day.sunshine_duration ? (day.sunshine_duration / 3600).toFixed(1) : 0;
    sunshineHours.push(parseFloat(sunshineInHours));
  \<close>
\<close>

definition updateWeatherUvChart :: "platform \<Rightarrow> charts \<Rightarrow> jsval \<Rightarrow> charts \<times> js_error option" where
  "updateWeatherUvChart pf cs apiData =
     (if cs weatherUvChart = None then (cs, None)
      else if \<not> truthy apiData \<or> js_prop apiData ''length'' = JNum 0 then (cs, None)
      else
        (case js_forEach apiData
                (\<lambda>day. row toLocaleDateString_month_day day
                   [js_or (js_prop day ''uv_index_max'') (JNum 0),
                    (if truthy (js_prop day ''sunshine_duration'')
                     then div_toFixed pf (js_prop day ''sunshine_duration'') 3600 1
                     else JNum 0)]) of
           Inl e \<Rightarrow> (cs, Some e)
         | Inr rows \<Rightarrow>
             commit weatherUvChart
               [(Labels, labels_of rows), (DatasetData 0, series 0 rows), (DatasetData 1, series 1 rows)] cs))"

definition updateMarineDailyWaveChart :: "charts \<Rightarrow> jsval \<Rightarrow> charts \<times> js_error option" where
  "updateMarineDailyWaveChart cs apiData =
     (if cs marineDailyWaveChart = None then (cs, None)
      else if \<not> truthy apiData \<or> js_prop apiData ''length'' = JNum 0 then (cs, None)
      else
        (case js_forEach apiData
                (\<lambda>day. row toLocaleDateString_month_day day
                   [js_or (js_prop day ''wave_height_max'') (JNum 0),
                    js_or (js_prop day ''swell_wave_height_max'') (JNum 0),
                    js_or (js_prop day ''wind_wave_height_max'') (JNum 0)]) of
           Inl e \<Rightarrow> (cs, Some e)
         | Inr rows \<Rightarrow>
             commit marineDailyWaveChart
               [(Labels, labels_of rows), (DatasetData 0, series 0 rows), (DatasetData 1, series 1 rows), (DatasetData 2, series 2 rows)] cs))"

definition updateMarineDailyPeriodChart :: "charts \<Rightarrow> jsval \<Rightarrow> charts \<times> js_error option" where
  "updateMarineDailyPeriodChart cs apiData =
     (if cs marineDailyPeriodChart = None then (cs, None)
      else if \<not> truthy apiData \<or> js_prop apiData ''length'' = JNum 0 then (cs, None)
      else
        (case js_forEach apiData
                (\<lambda>day. row toLocaleDateString_month_day day
                   [js_or (js_prop day ''wave_period_max'') (JNum 0),
                    js_or (js_prop day ''wave_direction_dominant'') (JNum 0)]) of
           Inl e \<Rightarrow> (cs, Some e)
         | Inr rows \<Rightarrow>
             commit marineDailyPeriodChart
               [(Labels, labels_of rows), (DatasetData 0, series 0 rows), (DatasetData 1, series 1 rows)] cs))"

subsection \<open>Hourly charts\<close>

text \<open>
  \<^verbatim>\<open>
    function formatHourLabel(timestamp) {
      const date = new Date(timestamp);
      const hours = date.getHours().toString().padStart(2, '0');
      return `${hours}:00`;
    }
  \<close>
\<close>

definition formatHourLabel :: "platform \<Rightarrow> jsval \<Rightarrow> string" where
  "formatHourLabel pf timestamp =
     padStart2 (case getHours pf timestamp of None \<Rightarrow> ''NaN'' | Some h \<Rightarrow> string_of_nat h) @ '':00''"

text \<open>\<^verbatim>\<open>v.map(f)\<close> for a payload value \<open>v\<close> and an \<open>f\<close> that returns strings: only an array has \<^verbatim>\<open>map\<close>.\<close>

definition js_map :: "jsval \<Rightarrow> (jsval \<Rightarrow> string) \<Rightarrow> js_error + jsval" where
  "js_map v f = (case v of JArr xs \<Rightarrow> Inr (JArr (map (\<lambda>x. JStr (f x)) xs)) | _ \<Rightarrow> Inl (Thrown TypeError))"

definition updateWeatherHourlyTempChart :: "platform \<Rightarrow> charts \<Rightarrow> jsval \<Rightarrow> charts \<times> js_error option" where
  "updateWeatherHourlyTempChart pf cs apiData =
     (if cs weatherHourlyTempChart = None then (cs, None)
      else if \<not> truthy apiData \<or> \<not> truthy (js_prop apiData ''parameters'') then (cs, None)
      else
        (let temp = js_prop (js_prop apiData ''parameters'') ''temp_2m'';
              humidity = js_prop (js_prop apiData ''parameters'') ''humidity_2m''
         in if \<not> truthy temp \<or> \<not> truthy humidity then (cs, None)
            else
              (case js_map (js_prop temp ''times'') (formatHourLabel pf) of
                 Inl e \<Rightarrow> (cs, Some e)
               | Inr labels' \<Rightarrow>
                   commit weatherHourlyTempChart
                   [(Labels, labels'),
                    (DatasetData 0, js_prop temp ''values''),
                    (DatasetData 1, js_prop humidity ''values'')] cs)))"

definition updateWeatherHourlyPrecipChart :: "platform \<Rightarrow> charts \<Rightarrow> jsval \<Rightarrow> charts \<times> js_error option" where
  "updateWeatherHourlyPrecipChart pf cs apiData =
     (if cs weatherHourlyPrecipChart = None then (cs, None)
      else if \<not> truthy apiData \<or> \<not> truthy (js_prop apiData ''parameters'') then (cs, None)
      else
        (let precip = js_prop (js_prop apiData ''parameters'') ''precip'';
              precipProb = js_prop (js_prop apiData ''parameters'') ''precip_prob''
         in if \<not> truthy precip \<or> \<not> truthy precipProb then (cs, None)
            else
              (case js_map (js_prop precip ''times'') (formatHourLabel pf) of
                 Inl e \<Rightarrow> (cs, Some e)
               | Inr labels' \<Rightarrow>
                   commit weatherHourlyPrecipChart
                   [(Labels, labels'),
                    (DatasetData 0, js_prop precip ''values''),
                    (DatasetData 1, js_prop precipProb ''values'')] cs)))"

definition updateWeatherHourlyWindChart :: "platform \<Rightarrow> charts \<Rightarrow> jsval \<Rightarrow> charts \<times> js_error option" where
  "updateWeatherHourlyWindChart pf cs apiData =
     (if cs weatherHourlyWindChart = None then (cs, None)
      else if \<not> truthy apiData \<or> \<not> truthy (js_prop apiData ''parameters'') then (cs, None)
      else
        (let windSpeed = js_prop (js_prop apiData ''parameters'') ''wind_speed_10m'';
              windDir = js_prop (js_prop apiData ''parameters'') ''wind_dir_10m''
         in if \<not> truthy windSpeed \<or> \<not> truthy windDir then (cs, None)
            else
              (case js_map (js_prop windSpeed ''times'') (formatHourLabel pf) of
                 Inl e \<Rightarrow> (cs, Some e)
               | Inr labels' \<Rightarrow>
                   commit weatherHourlyWindChart
                   [(Labels, labels'),
                    (DatasetData 0, js_prop windSpeed ''values''),
                    (DatasetWindDirections 0, js_prop windDir ''values'')] cs)))"

definition updateAirQualityAqiChart :: "platform \<Rightarrow> charts \<Rightarrow> jsval \<Rightarrow> charts \<times> js_error option" where
  "updateAirQualityAqiChart pf cs apiData =
     (if cs airQualityAqiChart = None then (cs, None)
      else if \<not> truthy apiData \<or> \<not> truthy (js_prop apiData ''parameters'') then (cs, None)
      else
        (let europeanAqi = js_prop (js_prop apiData ''parameters'') ''aqi_european'';
              usAqi = js_prop (js_prop apiData ''parameters'') ''aqi_us''
         in if \<not> truthy europeanAqi \<or> \<not> truthy usAqi then (cs, None)
            else
              (case js_map (js_prop europeanAqi ''times'') (formatHourLabel pf) of
                 Inl e \<Rightarrow> (cs, Some e)
               | Inr labels' \<Rightarrow>
                   commit airQualityAqiChart
                   [(Labels, labels'),
                    (DatasetData 0, js_prop europeanAqi ''values''),
                    (DatasetData 1, js_prop usAqi ''values'')] cs)))"

definition updateAirQualityPollutantsChart :: "platform \<Rightarrow> charts \<Rightarrow> jsval \<Rightarrow> charts \<times> js_error option" where
  "updateAirQualityPollutantsChart pf cs apiData =
     (if cs airQualityPollutantsChart = None then (cs, None)
      else if \<not> truthy apiData \<or> \<not> truthy (js_prop apiData ''parameters'') then (cs, None)
      else
        (let pm25 = js_prop (js_prop apiData ''parameters'') ''pm2_5'';
              pm10 = js_prop (js_prop apiData ''parameters'') ''pm10'';
              no2 = js_prop (js_prop apiData ''parameters'') ''no2'';
              o3 = js_prop (js_prop apiData ''parameters'') ''o3''
         in if \<not> truthy pm25 \<or> \<not> truthy pm10 \<or> \<not> truthy no2 \<or> \<not> truthy o3 then (cs, None)
            else
              (case js_map (js_prop pm25 ''times'') (formatHourLabel pf) of
                 Inl e \<Rightarrow> (cs, Some e)
               | Inr labels' \<Rightarrow>
                   commit airQualityPollutantsChart
                   [(Labels, labels'),
                    (DatasetData 0, js_prop pm25 ''values''),
                    (DatasetData 1, js_prop pm10 ''values''),
                    (DatasetData 2, js_prop no2 ''values''),
                    (DatasetData 3, js_prop o3 ''values'')] cs)))"

definition updateAirQualitySecondaryChart :: "platform \<Rightarrow> charts \<Rightarrow> jsval \<Rightarrow> charts \<times> js_error option" where
  "updateAirQualitySecondaryChart pf cs apiData =
     (if cs airQualitySecondaryChart = None then (cs, None)
      else if \<not> truthy apiData \<or> \<not> truthy (js_prop apiData ''parameters'') then (cs, None)
      else
        (let so2 = js_prop (js_prop apiData ''parameters'') ''so2'';
              co = js_prop (js_prop apiData ''parameters'') ''co''
         in if \<not> truthy so2 \<or> \<not> truthy co then (cs, None)
            else
              (case js_map (js_prop so2 ''times'') (formatHourLabel pf) of
                 Inl e \<Rightarrow> (cs, Some e)
               | Inr labels' \<Rightarrow>
                   commit airQualitySecondaryChart
                   [(Labels, labels'),
                    (DatasetData 0, js_prop so2 ''values''),
                    (DatasetData 1, js_prop co ''values'')] cs)))"

text \<open>
  Here the guard tests the three heights only, and the directions are
  \<^verbatim>\<open>waveDirection?.values || []\<close>.
\<close>

definition updateMarineHourlyWaveChart :: "platform \<Rightarrow> charts \<Rightarrow> jsval \<Rightarrow> charts \<times> js_error option" where
  "updateMarineHourlyWaveChart pf cs apiData =
     (if cs marineHourlyWaveChart = None then (cs, None)
      else if \<not> truthy apiData \<or> \<not> truthy (js_prop apiData ''parameters'') then (cs, None)
      else
        (let waveHeight = js_prop (js_prop apiData ''parameters'') ''wave_height'';
              swellHeight = js_prop (js_prop apiData ''parameters'') ''swell_wave_height'';
              windWaveHeight = js_prop (js_prop apiData ''parameters'') ''wind_wave_height'';
              waveDirection = js_prop (js_prop apiData ''parameters'') ''wave_direction''
         in if \<not> truthy waveHeight \<or> \<not> truthy swellHeight \<or> \<not> truthy windWaveHeight then (cs, None)
            else
              (case js_map (js_prop waveHeight ''times'') (formatHourLabel pf) of
                 Inl e \<Rightarrow> (cs, Some e)
               | Inr labels' \<Rightarrow>
                   commit marineHourlyWaveChart
                   [(Labels, labels'),
                    (DatasetData 0, js_prop waveHeight ''values''),
                    (DatasetWaveDirections 0,
                       js_or (if nullish waveDirection then JUndefined else js_prop waveDirection ''values'') (JArr [])),
                    (DatasetData 1, js_prop swellHeight ''values''),
                    (DatasetData 2, js_prop windWaveHeight ''values'')] cs)))"

definition updateMarineHourlyPeriodChart :: "platform \<Rightarrow> charts \<Rightarrow> jsval \<Rightarrow> charts \<times> js_error option" where
  "updateMarineHourlyPeriodChart pf cs apiData =
     (if cs marineHourlyPeriodChart = None then (cs, None)
      else if \<not> truthy apiData \<or> \<not> truthy (js_prop apiData ''parameters'') then (cs, None)
      else
        (let wavePeriod = js_prop (js_prop apiData ''parameters'') ''wave_period'';
              seaTemp = js_prop (js_prop apiData ''parameters'') ''sea_temp''
         in if \<not> truthy wavePeriod \<or> \<not> truthy seaTemp then (cs, None)
            else
              (case js_map (js_prop wavePeriod ''times'') (formatHourLabel pf) of
                 Inl e \<Rightarrow> (cs, Some e)
               | Inr labels' \<Rightarrow>
                   commit marineHourlyPeriodChart
                   [(Labels, labels'),
                    (DatasetData 0, js_prop wavePeriod ''values''),
                    (DatasetData 1, js_prop seaTemp ''values'')] cs)))"

subsection \<open>Satellite charts\<close>

text \<open>
  \<^verbatim>\<open>[...apiData]\<close>: an array gives its elements and a string its characters; anything else
  that passed the guard is not iterable.
\<close>

definition js_spread :: "jsval \<Rightarrow> js_error + jsval list" where
  "js_spread v =
     (case v of
        JArr xs \<Rightarrow> Inr xs
      | JStr s \<Rightarrow> Inr (map (\<lambda>c. JStr [c]) s)
      | _ \<Rightarrow> Inl (Thrown TypeError))"

text \<open>
  \<^verbatim>\<open>.sort((a, b) => new Date(a.created_at) - new Date(b.created_at))\<close> on elements none of
  which is \<^verbatim>\<open>null\<close> or \<^verbatim>\<open>undefined\<close>: ascending by time value, equal keys in their
  order, when every date is valid. (With a \<^verbatim>\<open>null\<close> or \<^verbatim>\<open>undefined\<close> element the comparator
  or the loop after it throws on \<^verbatim>\<open>.created_at\<close>; the update functions test that first.)
\<close>

definition sort_by_created_at :: "platform \<Rightarrow> jsval list \<Rightarrow> jsval list" where
  "sort_by_created_at pf xs =
     (if list_all (\<lambda>a. getTime pf (js_prop a ''created_at'') \<noteq> None) xs
      then sort_key (\<lambda>a. case getTime pf (js_prop a ''created_at'') of Some t \<Rightarrow> t | None \<Rightarrow> 0) xs
      else sort_unordered pf xs)"

definition updateSatelliteDailyRadiationChart :: "platform \<Rightarrow> charts \<Rightarrow> jsval \<Rightarrow> charts \<times> js_error option" where
  "updateSatelliteDailyRadiationChart pf cs apiData =
     (if cs satelliteDailyRadiationChart = None then (cs, None)
      else if \<not> truthy apiData \<or> js_prop apiData ''length'' = JNum 0 then (cs, None)
      else
        (case js_spread apiData of
           Inl e \<Rightarrow> (cs, Some e)
         | Inr xs \<Rightarrow>
             (if list_ex nullish xs then (cs, Some (Thrown TypeError))
              else
                (let sortedData = sort_by_created_at pf xs;
                     rows = map (\<lambda>day.
                         (toLocaleDateString_month_day (getTime pf (js_prop day ''created_at'')),
                          [js_or (js_prop day ''shortwave_radiation'') (JNum 0),
                          js_or (js_prop day ''direct_radiation'') (JNum 0),
                          js_or (js_prop day ''diffuse_radiation'') (JNum 0)])) sortedData
                 in commit satelliteDailyRadiationChart
                      [(Labels, labels_of rows), (DatasetData 0, series 0 rows), (DatasetData 1, series 1 rows), (DatasetData 2, series 2 rows)] cs))))"

definition updateSatelliteDailyIrradianceChart :: "platform \<Rightarrow> charts \<Rightarrow> jsval \<Rightarrow> charts \<times> js_error option" where
  "updateSatelliteDailyIrradianceChart pf cs apiData =
     (if cs satelliteDailyIrradianceChart = None then (cs, None)
      else if \<not> truthy apiData \<or> js_prop apiData ''length'' = JNum 0 then (cs, None)
      else
        (case js_spread apiData of
           Inl e \<Rightarrow> (cs, Some e)
         | Inr xs \<Rightarrow>
             (if list_ex nullish xs then (cs, Some (Thrown TypeError))
              else
                (let sortedData = sort_by_created_at pf xs;
                     rows = map (\<lambda>day.
                         (toLocaleDateString_month_day (getTime pf (js_prop day ''created_at'')),
                          [js_or (js_prop day ''direct_normal_irradiance'') (JNum 0),
                          js_or (js_prop day ''global_tilted_irradiance'') (JNum 0),
                          js_or (js_prop day ''terrestrial_radiation'') (JNum 0)])) sortedData
                 in commit satelliteDailyIrradianceChart
                      [(Labels, labels_of rows), (DatasetData 0, series 0 rows), (DatasetData 1, series 1 rows), (DatasetData 2, series 2 rows)] cs))))"

subsection \<open>Climate charts\<close>

text \<open>
  \<^verbatim>\<open>apiData.daily_data.filter((_, index) => index % 7 === 0)\<close>: every seventh record,
  from the first; only an array has \<^verbatim>\<open>filter\<close>.
\<close>

definition js_sample7 :: "jsval \<Rightarrow> js_error + jsval list" where
  "js_sample7 v =
     (case v of
        JArr xs \<Rightarrow> Inr (map snd (filter (\<lambda>ix. fst ix mod 7 = 0) (enumerate 0 xs)))
      | _ \<Rightarrow> Inl (Thrown TypeError))"

definition updateClimateTempTrendsChart :: "charts \<Rightarrow> jsval \<Rightarrow> charts \<times> js_error option" where
  "updateClimateTempTrendsChart cs apiData =
     (if cs climateTempTrendsChart = None then (cs, None)
      else if \<not> truthy apiData \<or> \<not> truthy (js_prop apiData ''daily_data'')
              \<or> js_prop (js_prop apiData ''daily_data'') ''length'' = JNum 0 then (cs, None)
      else
        (case js_sample7 (js_prop apiData ''daily_data'') of
           Inl e \<Rightarrow> (cs, Some e)
         | Inr sampledData \<Rightarrow>
             (case each (\<lambda>day. row toLocaleDateString_month_year day
                         [js_or (js_prop day ''temperature_2m_max'') JNull,
                          js_or (js_prop day ''temperature_2m_mean'') JNull,
                          js_or (js_prop day ''temperature_2m_min'') JNull]) sampledData of
                Inl e \<Rightarrow> (cs, Some e)
              | Inr rows \<Rightarrow>
                  commit climateTempTrendsChart
                    [(Labels, labels_of rows), (DatasetData 0, series 0 rows), (DatasetData 1, series 1 rows), (DatasetData 2, series 2 rows)] cs)))"

definition updateClimatePrecipHumidityChart :: "charts \<Rightarrow> jsval \<Rightarrow> charts \<times> js_error option" where
  "updateClimatePrecipHumidityChart cs apiData =
     (if cs climatePrecipHumidityChart = None then (cs, None)
      else if \<not> truthy apiData \<or> \<not> truthy (js_prop apiData ''daily_data'')
              \<or> js_prop (js_prop apiData ''daily_data'') ''length'' = JNum 0 then (cs, None)
      else
        (case js_sample7 (js_prop apiData ''daily_data'') of
           Inl e \<Rightarrow> (cs, Some e)
         | Inr sampledData \<Rightarrow>
             (case each (\<lambda>day. row toLocaleDateString_month_year day
                         [js_or (js_prop day ''precipitation_sum'') (JNum 0),
                          js_or (js_prop day ''relative_humidity_2m_mean'') JNull]) sampledData of
                Inl e \<Rightarrow> (cs, Some e)
              | Inr rows \<Rightarrow>
                  commit climatePrecipHumidityChart
                    [(Labels, labels_of rows), (DatasetData 0, series 0 rows), (DatasetData 1, series 1 rows)] cs)))"

text \<open>
  \<^verbatim>\<open>
    const radiationMJ = day.shortwave_radiation_sum ? (day.shortwave_radiation_sum / 277.778).toFixed(2) : null;
    radiation.push(radiationMJ ? parseFloat(radiationMJ) : null);
  \<close>
  (the string \<^verbatim>\<open>toFixed\<close> returns is never empty).
\<close>

definition updateClimateWindRadiationChart :: "platform \<Rightarrow> charts \<Rightarrow> jsval \<Rightarrow> charts \<times> js_error option" where
  "updateClimateWindRadiationChart pf cs apiData =
     (if cs climateWindRadiationChart = None then (cs, None)
      else if \<not> truthy apiData \<or> \<not> truthy (js_prop apiData ''daily_data'')
              \<or> js_prop (js_prop apiData ''daily_data'') ''length'' = JNum 0 then (cs, None)
      else
        (case js_sample7 (js_prop apiData ''daily_data'') of
           Inl e \<Rightarrow> (cs, Some e)
         | Inr sampledData \<Rightarrow>
             (case each (\<lambda>day. row toLocaleDateString_month_year day
                         [js_or (js_prop day ''wind_speed_10m_max'') JNull,
                          (if truthy (js_prop day ''shortwave_radiation_sum'')
                           then div_toFixed pf (js_prop day ''shortwave_radiation_sum'') 277.778 2
                           else JNull)]) sampledData of
                Inl e \<Rightarrow> (cs, Some e)
              | Inr rows \<Rightarrow>
                  commit climateWindRadiationChart
                    [(Labels, labels_of rows), (DatasetData 0, series 0 rows), (DatasetData 1, series 1 rows)] cs)))"

subsection \<open>All update functions\<close>

text \<open>The update function that belongs to each chart variable.\<close>

definition update_chart :: "platform \<Rightarrow> widget \<Rightarrow> charts \<Rightarrow> jsval \<Rightarrow> charts \<times> js_error option" where
  "update_chart pf w =
     (case w of
        weatherDailyChart \<Rightarrow> updateWeatherDailyChart
      | weatherPrecipChart \<Rightarrow> updateWeatherPrecipChart
      | weatherWindChart \<Rightarrow> updateWeatherWindChart
      | weatherUvChart \<Rightarrow> updateWeatherUvChart pf
      | weatherHourlyTempChart \<Rightarrow> updateWeatherHourlyTempChart pf
      | weatherHourlyPrecipChart \<Rightarrow> updateWeatherHourlyPrecipChart pf
      | weatherHourlyWindChart \<Rightarrow> updateWeatherHourlyWindChart pf
      | airQualityAqiChart \<Rightarrow> updateAirQualityAqiChart pf
      | airQualityPollutantsChart \<Rightarrow> updateAirQualityPollutantsChart pf
      | airQualitySecondaryChart \<Rightarrow> updateAirQualitySecondaryChart pf
      | marineDailyWaveChart \<Rightarrow> updateMarineDailyWaveChart
      | marineDailyPeriodChart \<Rightarrow> updateMarineDailyPeriodChart
      | marineHourlyWaveChart \<Rightarrow> updateMarineHourlyWaveChart pf
      | marineHourlyPeriodChart \<Rightarrow> updateMarineHourlyPeriodChart pf
      | satelliteDailyRadiationChart \<Rightarrow> updateSatelliteDailyRadiationChart pf
      | satelliteDailyIrradianceChart \<Rightarrow> updateSatelliteDailyIrradianceChart pf
      | climateTempTrendsChart \<Rightarrow> updateClimateTempTrendsChart
      | climatePrecipHumidityChart \<Rightarrow> updateClimatePrecipHumidityChart
      | climateWindRadiationChart \<Rightarrow> updateClimateWindRadiationChart pf)"

section \<open>The API client\<close>

text \<open>
  \<^verbatim>\<open>
    function getApiUrl(endpoint) {
      const url = `${API_CONFIG.baseURL}${endpoint}`;
      return url.replace(/([^:]\/)\/+/g, "$1");
    }
  \<close>
  The replacement scans from the left: a character other than a colon, a slash and at
  least one more slash become that character and one slash, and the scan goes on
  behind the slashes.
\<close>

definition baseURL :: string where
  "baseURL = ''http://localhost:8000''"

function collapse_slashes :: "string \<Rightarrow> string" where
  "collapse_slashes (c # d # e # rest) =
     (if c \<noteq> CHR '':'' \<and> d = CHR ''/'' \<and> e = CHR ''/''
      then c # d # collapse_slashes (dropWhile (\<lambda>x. x = CHR ''/'') rest)
      else c # collapse_slashes (d # e # rest))"
| "collapse_slashes [c, d] = [c, d]"
| "collapse_slashes [c] = [c]"
| "collapse_slashes [] = []"
  by pat_completeness auto
termination
  by (relation "measure length") (auto intro: le_imp_less_Suc le_SucI length_dropWhile_le)

definition getApiUrl :: "string \<Rightarrow> string" where
  "getApiUrl endpoint = collapse_slashes (baseURL @ endpoint)"

text \<open>
  The methods of \<^verbatim>\<open>WeatherApiClient\<close>. Each declares the one parameter \<^verbatim>\<open>locationId\<close> and
  is \<^verbatim>\<open>return await this.fetchData(`/weather/daily/${locationId}`)\<close> with its own path;
  \<^verbatim>\<open>locationId\<close> is the integer \<^verbatim>\<open>location_id\<close> of a saved location.
\<close>

datatype api_method =
    fetchDailyForecast
  | fetchCurrentData
  | fetchHourlyData
  | fetchAirQualityCurrentData
  | fetchAirQualityHourlyData
  | fetchMarineCurrentData
  | fetchMarineHourlyData
  | fetchMarineDailyData
  | fetchSatelliteDailyData
  | fetchClimateProjection

definition endpoint :: "api_method \<Rightarrow> int \<Rightarrow> string" where
  "endpoint m locationId =
     (case m of
        fetchDailyForecast \<Rightarrow> ''/weather/daily/''
      | fetchCurrentData \<Rightarrow> ''/weather/current/''
      | fetchHourlyData \<Rightarrow> ''/weather/hourly/''
      | fetchAirQualityCurrentData \<Rightarrow> ''/air-quality/current/''
      | fetchAirQualityHourlyData \<Rightarrow> ''/air-quality/hourly/''
      | fetchMarineCurrentData \<Rightarrow> ''/marine/current/''
      | fetchMarineHourlyData \<Rightarrow> ''/marine/hourly/''
      | fetchMarineDailyData \<Rightarrow> ''/marine/daily/''
      | fetchSatelliteDailyData \<Rightarrow> ''/satellite/daily/''
      | fetchClimateProjection \<Rightarrow> ''/climate/projection/'') @ string_of_int locationId"

record request =
  url :: string
  http_method :: string
  headers :: "(string \<times> string) list"

text \<open>
  \<^verbatim>\<open>fetchData(endpoint)\<close> up to its \<^verbatim>\<open>await fetch(...)\<close>: \<open>token\<close> is
  \<^verbatim>\<open>localStorage.getItem("access_token")\<close>, \<open>None\<close> for \<^verbatim>\<open>null\<close>. \<open>Inl\<close> is the error thrown
  before any request; \<open>Inr\<close> is the request \<^verbatim>\<open>fetch\<close> is called with.
\<close>

definition bearer_request :: "string \<Rightarrow> string \<Rightarrow> request" where
  "bearer_request t endp =
     \<lparr>url = getApiUrl endp, http_method = ''GET'',
      headers = [(''Authorization'', ''Bearer '' @ t), (''Content-Type'', ''application/json'')]\<rparr>"

definition fetchData_request :: "string option \<Rightarrow> string \<Rightarrow> js_error + request" where
  "fetchData_request token endp =
     (case token of
        None \<Rightarrow> Inl (new_Error (JStr ''No authentication token found''))
      | Some t \<Rightarrow>
          (if t = [] then Inl (new_Error (JStr ''No authentication token found''))
           else Inr (bearer_request t endp)))"

text \<open>
  A call \<^verbatim>\<open>weatherApiClient.m(locationId, ...more)\<close>: the method binds its one parameter,
  and JavaScript drops the arguments beyond it.
\<close>

definition client_call :: "api_method \<Rightarrow> string option \<Rightarrow> int \<Rightarrow> jsval list \<Rightarrow> js_error + request" where
  "client_call m token locationId further = fetchData_request token (endpoint m locationId)"

text \<open>
  What \<^verbatim>\<open>fetch\<close> settles with: no response at all, or a response with its status, status
  text and the value \<^verbatim>\<open>response.json()\<close> gives (\<open>None\<close> when the body is not JSON).
\<close>

datatype http_result = NoResponse | Response nat string "jsval option"

section \<open>The dashboard page\<close>

record user_location =
  user_location_id :: int
  location_id :: int
  is_primary :: bool

datatype container = currentWeatherCards | currentAirQualityCards | currentMarineCards | climateModelInfo

text \<open>
  What a cards container shows: the markup the page was served with, nothing (after
  \<^verbatim>\<open>innerHTML = ""\<close>), the cards built from a payload, or the red box of a
  \<^verbatim>\<open>show...Error(message)\<close>.
\<close>

datatype html = Initial | Cleared | CardsOf jsval | ErrorBox message

datatype loader =
    loadCurrentWeatherData
  | loadDailyWeatherData
  | loadHourlyWeatherData
  | loadCurrentAirQualityData
  | loadHourlyAirQualityData
  | loadCurrentMarineData
  | loadDailyMarineData
  | loadHourlyMarineData
  | loadDailySatelliteData
  | loadClimateProjectionData

text \<open>
  The state of the page: the globals \<^verbatim>\<open>activeLocationId\<close> (\<open>None\<close> for \<^verbatim>\<open>null\<close>) and
  \<^verbatim>\<open>userLocations\<close>, the chart variables, the cards containers (\<open>None\<close> when the element
  is not in the document), the two tokens in \<^verbatim>\<open>localStorage\<close>, \<^verbatim>\<open>window.location.href\<close>,
  the refresh button (\<open>None\<close> when absent, else whether it has the class \<^verbatim>\<open>rotating\<close>),
  the requests in flight with the loader that awaits each, in the order they were
  sent, and the number of \<^verbatim>\<open>setTimeout\<close> callbacks of \<^verbatim>\<open>refreshAllCharts\<close> not yet run.
\<close>

record page =
  activeLocationId :: "int option"
  userLocations :: "user_location list"
  charts :: charts
  containers :: "container \<Rightarrow> html option"
  access_token :: "string option"
  refresh_token :: "string option"
  location_href :: string
  refreshBtn :: "bool option"
  pending :: "(loader \<times> request) list"
  timers :: nat

text \<open>
  \<^verbatim>\<open>fetchData\<close> from the point where \<^verbatim>\<open>fetch\<close> settles: the value it returns (\<open>Inr\<close>) or
  the error it throws (\<open>Inl\<close>; its \<^verbatim>\<open>catch\<close> logs and rethrows). A 401 also removes both
  tokens and sends the window to the login page.
\<close>

definition fetchData_settle :: "http_result \<Rightarrow> page \<Rightarrow> page \<times> (js_error + jsval)" where
  "fetchData_settle res pg =
     (case res of
        NoResponse \<Rightarrow> (pg, Inl (Thrown FetchFailed))
      | Response status statusText body \<Rightarrow>
          (if \<not> (200 \<le> status \<and> status \<le> 299) then
             (if status = 401 then
                (pg\<lparr>access_token := None, refresh_token := None, location_href := ''/login.html''\<rparr>,
                 Inl (new_Error (JStr ''Authentication failed'')))
              else
                (let errorData = (case body of None \<Rightarrow> JObj [] | Some b \<Rightarrow> b)
                 in case js_get errorData ''detail'' of
                      Inl e \<Rightarrow> (pg, Inl e)
                    | Inr detail \<Rightarrow>
                        (pg, Inl (new_Error (js_or detail
                           (JStr (''HTTP '' @ string_of_nat status @ '': '' @ statusText)))))))
           else
             (case body of
                None \<Rightarrow> (pg, Inl (Thrown SyntaxError))
              | Some d \<Rightarrow>
                  (case js_get d ''success'' of
                     Inl e \<Rightarrow> (pg, Inl e)
                   | Inr success \<Rightarrow>
                       (if \<not> truthy success
                        then (pg, Inl (new_Error (js_or (js_prop d ''detail'')
                                (JStr ''API returned unsuccessful response''))))
                        else (pg, Inr d))))))"

subsection \<open>Cards and error boxes\<close>

text \<open>
  \<^verbatim>\<open>updateCurrentWeatherCards\<close>, \<^verbatim>\<open>updateCurrentAirQualityCards\<close>, \<^verbatim>\<open>updateCurrentMarineCards\<close>
  and \<^verbatim>\<open>updateClimateModelInfo\<close> look their container up, return when it is missing,
  clear it, build the cards from the payload and append them. The markup of the cards is
  not modelled; \<open>cb c d\<close> says whether building the cards of container \<open>c\<close> from \<open>d\<close>
  throws (\<^verbatim>\<open>data.daily_data.length\<close> in \<^verbatim>\<open>updateClimateModelInfo\<close> does for a payload
  without \<^verbatim>\<open>daily_data\<close>), which happens after the container was cleared.
\<close>

type_synonym card_builder = "container \<Rightarrow> jsval \<Rightarrow> js_error option"

definition updateCards :: "card_builder \<Rightarrow> container \<Rightarrow> jsval \<Rightarrow> page \<Rightarrow> page \<times> js_error option" where
  "updateCards cb c d pg =
     (case containers pg c of
        None \<Rightarrow> (pg, None)
      | Some old \<Rightarrow>
          (case cb c d of
             Some e \<Rightarrow> (pg\<lparr>containers := (containers pg)(c \<mapsto> Cleared)\<rparr>, Some e)
           | None \<Rightarrow> (pg\<lparr>containers := (containers pg)(c \<mapsto> CardsOf d)\<rparr>, None)))"

text \<open>
  \<^verbatim>\<open>showCurrentWeatherError\<close>, \<^verbatim>\<open>showCurrentAirQualityError\<close>, \<^verbatim>\<open>showCurrentMarineError\<close> and
  \<^verbatim>\<open>showClimateError\<close>:
  \<^verbatim>\<open>
    const container = document.getElementById("currentWeatherCards");
    if (!container) return;
    container.innerHTML = `<div class="loading-spinner" ...> ${message} </div>`;
  \<close>
\<close>

definition showError :: "container \<Rightarrow> message \<Rightarrow> page \<Rightarrow> page \<times> js_error option" where
  "showError c m pg =
     (case containers pg c of
        None \<Rightarrow> (pg, None)
      | Some old \<Rightarrow> (pg\<lparr>containers := (containers pg)(c \<mapsto> ErrorBox m)\<rparr>, None))"

definition showCurrentWeatherError :: "message \<Rightarrow> page \<Rightarrow> page \<times> js_error option" where
  "showCurrentWeatherError = showError currentWeatherCards"

definition showCurrentAirQualityError :: "message \<Rightarrow> page \<Rightarrow> page \<times> js_error option" where
  "showCurrentAirQualityError = showError currentAirQualityCards"

definition showCurrentMarineError :: "message \<Rightarrow> page \<Rightarrow> page \<times> js_error option" where
  "showCurrentMarineError = showError currentMarineCards"

definition showClimateError :: "message \<Rightarrow> page \<Rightarrow> page \<times> js_error option" where
  "showClimateError = showError climateModelInfo"

subsection \<open>The loaders\<close>

text \<open>
  The ten \<^verbatim>\<open>async function load...Data()\<close> share one shape:
  \<^verbatim>\<open>
    if (!activeLocationId) return;
    try {
      const userLoc = userLocations.find((ul) => ul.user_location_id === activeLocationId);
      if (!userLoc) return;
      const response = await weatherApiClient.fetchX(userLoc.location_id);
      if (response && response.data) { ...updates(response.data)... }
      else { ...no data... }
    } catch (error) { ...on error... }
  \<close>
  and differ in the client method, the updates, and what the \<^verbatim>\<open>else\<close> and the \<^verbatim>\<open>catch\<close>
  do besides logging. Statements run in order and stop at the first throw.
\<close>

definition on_charts :: "(charts \<Rightarrow> charts \<times> js_error option) \<Rightarrow> page \<Rightarrow> page \<times> js_error option" where
  "on_charts f pg = (case f (charts pg) of (cs, r) \<Rightarrow> (pg\<lparr>charts := cs\<rparr>, r))"

fun in_order :: "(page \<Rightarrow> page \<times> js_error option) list \<Rightarrow> page \<Rightarrow> page \<times> js_error option" where
  "in_order [] pg = (pg, None)"
| "in_order (f # fs) pg =
     (case f pg of
        (pg', Some e) \<Rightarrow> (pg', Some e)
      | (pg', None) \<Rightarrow> in_order fs pg')"

definition try_catch ::
  "page \<times> js_error option \<Rightarrow> (js_error \<Rightarrow> page \<Rightarrow> page \<times> js_error option) \<Rightarrow> page \<times> js_error option" where
  "try_catch body handler =
     (case body of
        (pg, None) \<Rightarrow> (pg, None)
      | (pg, Some e) \<Rightarrow> handler e pg)"

definition fetch_method :: "loader \<Rightarrow> api_method" where
  "fetch_method l =
     (case l of
        loadCurrentWeatherData \<Rightarrow> fetchCurrentData
      | loadDailyWeatherData \<Rightarrow> fetchDailyForecast
      | loadHourlyWeatherData \<Rightarrow> fetchHourlyData
      | loadCurrentAirQualityData \<Rightarrow> fetchAirQualityCurrentData
      | loadHourlyAirQualityData \<Rightarrow> fetchAirQualityHourlyData
      | loadCurrentMarineData \<Rightarrow> fetchMarineCurrentData
      | loadDailyMarineData \<Rightarrow> fetchMarineDailyData
      | loadHourlyMarineData \<Rightarrow> fetchMarineHourlyData
      | loadDailySatelliteData \<Rightarrow> fetchSatelliteDailyData
      | loadClimateProjectionData \<Rightarrow> fetchClimateProjection)"

text \<open>
  The arguments a loader passes after \<^verbatim>\<open>userLoc.location_id\<close>: only
  \<^verbatim>\<open>loadClimateProjectionData\<close> passes any,
  \<^verbatim>\<open>fetchClimateProjection(userLoc.location_id, 'EC_Earth3P_HR', '2022-01-01', '2026-12-31')\<close>.
\<close>

definition further_arguments :: "loader \<Rightarrow> jsval list" where
  "further_arguments l =
     (case l of
        loadClimateProjectionData \<Rightarrow> [JStr ''EC_Earth3P_HR'', JStr ''2022-01-01'', JStr ''2026-12-31'']
      | _ \<Rightarrow> [])"

definition on_data :: "platform \<Rightarrow> card_builder \<Rightarrow> loader \<Rightarrow> jsval \<Rightarrow> (page \<Rightarrow> page \<times> js_error option) list" where
  "on_data pf cb l d =
     (case l of
        loadCurrentWeatherData \<Rightarrow> [updateCards cb currentWeatherCards d]
      | loadDailyWeatherData \<Rightarrow>
          [on_charts (\<lambda>cs. updateWeatherDailyChart cs d),
           on_charts (\<lambda>cs. updateWeatherPrecipChart cs d),
           on_charts (\<lambda>cs. updateWeatherUvChart pf cs d),
           on_charts (\<lambda>cs. updateWeatherWindChart cs d)]
      | loadHourlyWeatherData \<Rightarrow>
          [on_charts (\<lambda>cs. updateWeatherHourlyTempChart pf cs d),
           on_charts (\<lambda>cs. updateWeatherHourlyPrecipChart pf cs d),
           on_charts (\<lambda>cs. updateWeatherHourlyWindChart pf cs d)]
      | loadCurrentAirQualityData \<Rightarrow> [updateCards cb currentAirQualityCards d]
      | loadHourlyAirQualityData \<Rightarrow>
          [on_charts (\<lambda>cs. updateAirQualityAqiChart pf cs d),
           on_charts (\<lambda>cs. updateAirQualityPollutantsChart pf cs d),
           on_charts (\<lambda>cs. updateAirQualitySecondaryChart pf cs d)]
      | loadCurrentMarineData \<Rightarrow> [updateCards cb currentMarineCards d]
      | loadDailyMarineData \<Rightarrow>
          [on_charts (\<lambda>cs. updateMarineDailyWaveChart cs d),
           on_charts (\<lambda>cs. updateMarineDailyPeriodChart cs d)]
      | loadHourlyMarineData \<Rightarrow>
          [on_charts (\<lambda>cs. updateMarineHourlyWaveChart pf cs d),
           on_charts (\<lambda>cs. updateMarineHourlyPeriodChart pf cs d)]
      | loadDailySatelliteData \<Rightarrow>
          [on_charts (\<lambda>cs. updateSatelliteDailyRadiationChart pf cs d),
           on_charts (\<lambda>cs. updateSatelliteDailyIrradianceChart pf cs d)]
      | loadClimateProjectionData \<Rightarrow>
          [updateCards cb climateModelInfo d,
           on_charts (\<lambda>cs. updateClimateTempTrendsChart cs d),
           on_charts (\<lambda>cs. updateClimatePrecipHumidityChart cs d),
           on_charts (\<lambda>cs. updateClimateWindRadiationChart pf cs d)])"

text \<open>The \<^verbatim>\<open>else\<close> branch: four loaders show a text, the others only warn on the console.\<close>

definition on_no_data :: "loader \<Rightarrow> page \<Rightarrow> page \<times> js_error option" where
  "on_no_data l pg =
     (case l of
        loadCurrentWeatherData \<Rightarrow> showCurrentWeatherError (Text ''No data available'') pg
      | loadCurrentAirQualityData \<Rightarrow> showCurrentAirQualityError (Text ''No data available'') pg
      | loadCurrentMarineData \<Rightarrow> showCurrentMarineError (Text ''No data available'') pg
      | loadClimateProjectionData \<Rightarrow> showClimateError (Text ''No data available for this location'') pg
      | _ \<Rightarrow> (pg, None))"

text \<open>
  The \<^verbatim>\<open>catch\<close> block: the same four loaders show \<^verbatim>\<open>error.message\<close>, the others only
  \<^verbatim>\<open>console.error\<close> it.
\<close>

definition on_error :: "loader \<Rightarrow> js_error \<Rightarrow> page \<Rightarrow> page \<times> js_error option" where
  "on_error l e pg =
     (case l of
        loadCurrentWeatherData \<Rightarrow> showCurrentWeatherError (error_message e) pg
      | loadCurrentAirQualityData \<Rightarrow> showCurrentAirQualityError (error_message e) pg
      | loadCurrentMarineData \<Rightarrow> showCurrentMarineError (error_message e) pg
      | loadClimateProjectionData \<Rightarrow> showClimateError (error_message e) pg
      | _ \<Rightarrow> (pg, None))"

text \<open>
  A loader up to its \<^verbatim>\<open>await\<close>: it returns at once without an active location or without
  the saved location, and else calls the client; the request goes in flight, or the
  client's immediate rejection is caught. (The \<^verbatim>\<open>catch\<close> runs as a microtask after the
  caller has finished; it touches nothing the caller reads, so it is run here.)
\<close>

definition load_start :: "loader \<Rightarrow> page \<Rightarrow> page" where
  "load_start l pg =
     (case activeLocationId pg of
        None \<Rightarrow> pg
      | Some a \<Rightarrow>
          (if a = 0 then pg
           else
             (case find (\<lambda>ul. user_location_id ul = a) (userLocations pg) of
                None \<Rightarrow> pg
              | Some userLoc \<Rightarrow>
                  (case client_call (fetch_method l) (access_token pg) (location_id userLoc)
                          (further_arguments l) of
                     Inl e \<Rightarrow> fst (try_catch (pg, Some e) (on_error l))
                   | Inr req \<Rightarrow> pg\<lparr>pending := pending pg @ [(l, req)]\<rparr>))))"

text \<open>
  A loader from the point where its request settles. The second component is the fate of
  the promise the loader returned: \<open>None\<close> fulfilled, \<open>Some e\<close> rejected with \<open>e\<close>.
\<close>

definition load_settle :: "platform \<Rightarrow> card_builder \<Rightarrow> loader \<Rightarrow> http_result \<Rightarrow> page \<Rightarrow> page \<times> js_error option" where
  "load_settle pf cb l res pg =
     try_catch
       (case fetchData_settle res pg of
          (pg1, Inl e) \<Rightarrow> (pg1, Some e)
        | (pg1, Inr response) \<Rightarrow>
            (if truthy response \<and> truthy (js_prop response ''data'')
             then in_order (on_data pf cb l (js_prop response ''data'')) pg1
             else on_no_data l pg1))
       (on_error l)"

subsection \<open>Refreshing\<close>

text \<open>
  \<^verbatim>\<open>
    function refreshAllCharts() {
      const refreshBtn = document.getElementById("refreshDataBtn");
      if (refreshBtn) refreshBtn.classList.add("rotating");
      loadCurrentWeatherData();  loadDailyWeatherData();  loadHourlyWeatherData();
      loadCurrentAirQualityData();  loadHourlyAirQualityData();
      loadCurrentMarineData();  loadDailyMarineData();  loadHourlyMarineData();
      loadDailySatelliteData();  loadClimateProjectionData()
      setTimeout(() => { if (refreshBtn) refreshBtn.classList.remove("rotating"); }, 1000);
    }
  \<close>
  The loaders are called without \<^verbatim>\<open>await\<close>: each runs to its own \<^verbatim>\<open>await\<close> and hands back
  a promise nobody looks at. No statement of the function can throw.
\<close>

definition all_loaders :: "loader list" where
  "all_loaders =
     [loadCurrentWeatherData, loadDailyWeatherData, loadHourlyWeatherData,
      loadCurrentAirQualityData, loadHourlyAirQualityData,
      loadCurrentMarineData, loadDailyMarineData, loadHourlyMarineData,
      loadDailySatelliteData, loadClimateProjectionData]"

definition refreshAllCharts :: "page \<Rightarrow> page" where
  "refreshAllCharts pg =
     (let pg1 = pg\<lparr>refreshBtn := map_option (\<lambda>rotating. True) (refreshBtn pg)\<rparr>;
          pg2 = foldl (\<lambda>p l. load_start l p) pg1 all_loaders
      in pg2\<lparr>timers := Suc (timers pg2)\<rparr>)"

text \<open>
  \<^verbatim>\<open>handleLocationChange()\<close>, with \<open>v\<close> the \<^verbatim>\<open>value\<close> of the selector:
  \<^verbatim>\<open>
    const selectedId = parseInt(select.value);
    if (!selectedId) return;
    activeLocationId = selectedId;
    ...
    refreshAllCharts();
  \<close>
\<close>

definition handleLocationChange :: "string \<Rightarrow> page \<Rightarrow> page" where
  "handleLocationChange v pg =
     (case parseInt v of
        None \<Rightarrow> pg
      | Some selectedId \<Rightarrow>
          (if selectedId = 0 then pg
           else refreshAllCharts (pg\<lparr>activeLocationId := Some selectedId\<rparr>)))"

text \<open>
  What can happen on the page after \<^verbatim>\<open>DOMContentLoaded\<close>: a click on the refresh button
  and a tick of \<^verbatim>\<open>window.setInterval(refreshAllCharts, 60 * 1000)\<close> call
  \<^verbatim>\<open>refreshAllCharts\<close>; a change of the selector calls \<^verbatim>\<open>handleLocationChange\<close>; the
  \<open>k\<close>-th request in flight settles and its loader goes on; a timeout of
  \<^verbatim>\<open>refreshAllCharts\<close> fires.
\<close>

datatype event =
    RefreshClick
  | IntervalTick
  | LocationChange string
  | Settle nat http_result
  | TimeoutFires

definition step :: "platform \<Rightarrow> card_builder \<Rightarrow> page \<Rightarrow> event \<Rightarrow> page" where
  "step pf cb pg ev =
     (case ev of
        RefreshClick \<Rightarrow> refreshAllCharts pg
      | IntervalTick \<Rightarrow> refreshAllCharts pg
      | LocationChange v \<Rightarrow> handleLocationChange v pg
      | Settle k res \<Rightarrow>
          (if k < length (pending pg)
           then fst (load_settle pf cb (fst (pending pg ! k)) res
                  (pg\<lparr>pending := take k (pending pg) @ drop (Suc k) (pending pg)\<rparr>))
           else pg)
      | TimeoutFires \<Rightarrow>
          (if timers pg = 0 then pg
           else pg\<lparr>refreshBtn := map_option (\<lambda>rotating. False) (refreshBtn pg),
                   timers := timers pg - 1\<rparr>))"

definition run :: "platform \<Rightarrow> card_builder \<Rightarrow> page \<Rightarrow> event list \<Rightarrow> page" where
  "run pf cb pg evs = foldl (step pf cb) pg evs"

text \<open>The five domains, and the domain of each loader, chart and container.\<close>

datatype domain = Weather | AirQuality | Marine | Satellite | Climate

definition loader_domain :: "loader \<Rightarrow> domain" where
  "loader_domain l =
     (case l of
        loadCurrentWeatherData \<Rightarrow> Weather
      | loadDailyWeatherData \<Rightarrow> Weather
      | loadHourlyWeatherData \<Rightarrow> Weather
      | loadCurrentAirQualityData \<Rightarrow> AirQuality
      | loadHourlyAirQualityData \<Rightarrow> AirQuality
      | loadCurrentMarineData \<Rightarrow> Marine
      | loadDailyMarineData \<Rightarrow> Marine
      | loadHourlyMarineData \<Rightarrow> Marine
      | loadDailySatelliteData \<Rightarrow> Satellite
      | loadClimateProjectionData \<Rightarrow> Climate)"

definition container_domain :: "container \<Rightarrow> domain" where
  "container_domain c =
     (case c of
        currentWeatherCards \<Rightarrow> Weather
      | currentAirQualityCards \<Rightarrow> AirQuality
      | currentMarineCards \<Rightarrow> Marine
      | climateModelInfo \<Rightarrow> Climate)"

section \<open>Notions for the claims\<close>

subsection \<open>Properties of update functions\<close>

text \<open>
  Two properties of a function \<open>f\<close> on the chart variables, used to reason about the
  update functions one construct at a time. \<open>writes_own_chart w f\<close>: where chart \<open>w\<close>
  exists, \<open>f\<close> keeps it in existence, leaves every other chart variable alone, and
  running \<open>f\<close> again on its own result changes nothing and ends the same way.
  \<open>update_of w f\<close>: the same without the proviso, and \<open>f\<close> returns normally without any
  change where chart \<open>w\<close> does not exist.
\<close>

definition writes_own_chart :: "widget \<Rightarrow> (charts \<Rightarrow> charts \<times> js_error option) \<Rightarrow> bool" where
  "writes_own_chart w f \<longleftrightarrow>
     (\<forall>cs cs1 r. cs w \<noteq> None \<longrightarrow> f cs = (cs1, r) \<longrightarrow>
        cs1 w \<noteq> None \<and> f cs1 = (cs1, r) \<and> (\<forall>w'. w' \<noteq> w \<longrightarrow> cs1 w' = cs w'))"

definition update_of :: "widget \<Rightarrow> (charts \<Rightarrow> charts \<times> js_error option) \<Rightarrow> bool" where
  "update_of w f \<longleftrightarrow>
     (\<forall>cs cs1 r. f cs = (cs1, r) \<longrightarrow>
        f cs1 = (cs1, r) \<and> (\<forall>w'. w' \<noteq> w \<longrightarrow> cs1 w' = cs w') \<and>
        (cs w = None \<longrightarrow> cs1 = cs \<and> r = None))"

subsection \<open>What a chart shows\<close>

text \<open>
  What a chart shows, for stating what a transformer put on the screen: the \<open>i\<close>-th label
  and the \<open>i\<close>-th point of dataset \<open>k\<close> as \<^verbatim>\<open>chart.update()\<close> last painted them.
  \<open>js_index a i\<close> is \<^verbatim>\<open>a[i]\<close>.
\<close>

definition js_index :: "jsval \<Rightarrow> nat \<Rightarrow> jsval" where
  "js_index a i =
     (case a of
        JArr xs \<Rightarrow> (if i < length xs then xs ! i else JUndefined)
      | JStr s \<Rightarrow> (if i < length s then JStr [s ! i] else JUndefined)
      | _ \<Rightarrow> JUndefined)"

definition shown_label :: "charts \<Rightarrow> widget \<Rightarrow> nat \<Rightarrow> jsval option" where
  "shown_label cs w i =
     (case cs w of None \<Rightarrow> None | Some ch \<Rightarrow> Some (js_index (fst (painted ch)) i))"

definition shown_point :: "charts \<Rightarrow> widget \<Rightarrow> nat \<Rightarrow> nat \<Rightarrow> jsval option" where
  "shown_point cs w k i =
     (case cs w of
        None \<Rightarrow> None
      | Some ch \<Rightarrow>
          (if k < length (snd (painted ch))
           then Some (js_index (data (snd (painted ch) ! k)) i)
           else None))"

subsection \<open>A page and responses for the scenarios\<close>

text \<open>
  A page to run scenarios on: two saved locations (selector values 1 and 2, backend
  locations 10 and 20), the first one active, a token stored, every chart created and
  every container in the document, nothing in flight.
\<close>

definition example_page :: page where
  "example_page =
     \<lparr>activeLocationId = Some 1,
      userLocations =
        [\<lparr>user_location_id = 1, location_id = 10, is_primary = True\<rparr>,
         \<lparr>user_location_id = 2, location_id = 20, is_primary = False\<rparr>],
      charts = initializeWeatherCharts no_charts,
      containers = (\<lambda>c. Some Initial),
      access_token = Some ''token'',
      refresh_token = Some ''refresh'',
      location_href = ''/dashboard.html'',
      refreshBtn = Some False,
      pending = [],
      timers = 0\<rparr>"

text \<open>The container a loader's \<^verbatim>\<open>catch\<close> block writes to, if it writes to any.\<close>

definition error_container :: "loader \<Rightarrow> container option" where
  "error_container l =
     (case l of
        loadCurrentWeatherData \<Rightarrow> Some currentWeatherCards
      | loadCurrentAirQualityData \<Rightarrow> Some currentAirQualityCards
      | loadCurrentMarineData \<Rightarrow> Some currentMarineCards
      | loadClimateProjectionData \<Rightarrow> Some climateModelInfo
      | _ \<Rightarrow> None)"

text \<open>
  A successful daily weather response with one record of the given maximum temperature,
  the response \<^verbatim>\<open>{success: true, data: []}\<close>, and a 503 with a \<^verbatim>\<open>detail\<close>.
\<close>

definition empty_response :: http_result where
  "empty_response = Response 200 ''OK'' (Some (JObj [(''success'', JBool True), (''data'', JArr [])]))"

definition unavailable_response :: http_result where
  "unavailable_response =
     Response 503 ''Service Unavailable'' (Some (JObj [(''detail'', JStr ''service unavailable'')]))"

definition daily_response :: "real \<Rightarrow> http_result" where
  "daily_response tmax =
     Response 200 ''OK''
       (Some (JObj [(''success'', JBool True),
                    (''data'', JArr [JObj [(''valid_date'', JStr ''2025-11-12''),
                                           (''temperature_2m_max'', JNum tmax),
                                           (''temperature_2m_min'', JNum 1)]])]))"

section \<open>How assignments to a chart compose\<close>

lemma assign_length: "assign t v ch = Inr ch' \<Longrightarrow> length (datasets ch') = length (datasets ch)"
  by (auto simp: assign_def split: option.splits if_splits)

lemma assign_idem: "assign t v ch = Inr ch' \<Longrightarrow> assign t v ch' = Inr ch'"
  by (cases t) (auto simp: assign_def dataset_index_def assign_dataset_def split: if_splits)

lemma labels_fixed: "ch\<lparr>labels := v\<rparr> = ch \<longleftrightarrow> labels ch = v"
proof
  assume "ch\<lparr>labels := v\<rparr> = ch"
  then have "labels (ch\<lparr>labels := v\<rparr>) = labels ch" by simp
  then show "labels ch = v" by simp
next
  assume "labels ch = v"
  then show "ch\<lparr>labels := v\<rparr> = ch" by auto
qed

lemma datasets_fixed: "ch\<lparr>datasets := ds\<rparr> = ch \<longleftrightarrow> datasets ch = ds"
proof
  assume "ch\<lparr>datasets := ds\<rparr> = ch"
  then have "datasets (ch\<lparr>datasets := ds\<rparr>) = datasets ch" by simp
  then show "datasets ch = ds" by simp
next
  assume "datasets ch = ds"
  then show "ch\<lparr>datasets := ds\<rparr> = ch" by auto
qed

lemma list_update_fixed: "k < length xs \<Longrightarrow> xs = xs[k := y] \<longleftrightarrow> xs ! k = y"
  by (metis list_update_id nth_list_update_eq)

lemma data_fixed: "d\<lparr>data := v\<rparr> = d \<longleftrightarrow> data d = v"
  by (metis dataset.select_convs(1) dataset.surjective dataset.update_convs(1))

lemma wind_fixed: "d\<lparr>windDirections := v\<rparr> = d \<longleftrightarrow> windDirections d = v"
  by (metis dataset.select_convs(2) dataset.surjective dataset.update_convs(2))

lemma wave_fixed: "d\<lparr>waveDirections := v\<rparr> = d \<longleftrightarrow> waveDirections d = v"
  by (metis dataset.select_convs(3) dataset.surjective dataset.update_convs(3))

lemma data_fixed': "d = d\<lparr>data := v\<rparr> \<longleftrightarrow> data d = v"
  using data_fixed [of v d] by (auto simp: eq_commute)

lemma wind_fixed': "d = d\<lparr>windDirections := v\<rparr> \<longleftrightarrow> windDirections d = v"
  using wind_fixed [of v d] by (auto simp: eq_commute)

lemma wave_fixed': "d = d\<lparr>waveDirections := v\<rparr> \<longleftrightarrow> waveDirections d = v"
  using wave_fixed [of v d] by (auto simp: eq_commute)

lemma assign_fixed_iff:
  "assign t v ch = Inr ch \<longleftrightarrow>
     (case t of
        Labels \<Rightarrow> labels ch = v
      | DatasetData k \<Rightarrow> k < length (datasets ch) \<and> data (datasets ch ! k) = v
      | DatasetWindDirections k \<Rightarrow> k < length (datasets ch) \<and> windDirections (datasets ch ! k) = v
      | DatasetWaveDirections k \<Rightarrow> k < length (datasets ch) \<and> waveDirections (datasets ch ! k) = v)"
  by (cases t)
     (auto simp: assign_def dataset_index_def assign_dataset_def labels_fixed datasets_fixed
        list_update_fixed data_fixed wind_fixed wave_fixed data_fixed' wind_fixed' wave_fixed')

lemma assign_fixed_preserved:
  assumes "assign t v ch = Inr ch" and "assign t' v' ch = Inr ch'" and "t \<noteq> t'"
  shows "assign t v ch' = Inr ch'"
proof -
  have len: "length (datasets ch') = length (datasets ch)"
    using assms(2) by (rule assign_length)
  show ?thesis
    using assms len
    unfolding assign_fixed_iff [of t v ch'] assign_fixed_iff [of t v ch]
    by (cases t; cases t')
       (auto simp: assign_def dataset_index_def assign_dataset_def nth_list_update split: if_splits)
qed

lemma assign_painted:
  "assign t v (ch\<lparr>painted := p\<rparr>) = (case assign t v ch of Inl e \<Rightarrow> Inl e | Inr c \<Rightarrow> Inr (c\<lparr>painted := p\<rparr>))"
  by (auto simp: assign_def split: option.splits)

lemma assign_all_painted:
  "assign_all ws (ch\<lparr>painted := p\<rparr>) = (case assign_all ws ch of (c, r) \<Rightarrow> (c\<lparr>painted := p\<rparr>, r))"
  by (induction ws arbitrary: ch) (auto simp: assign_painted split: sum.splits)

lemma assign_all_again:
  "distinct (map fst ws) \<Longrightarrow> assign_all ws ch = (ch1, r) \<Longrightarrow>
     assign_all ws ch1 = (ch1, r) \<and>
     (r = None \<longrightarrow> (\<forall>(t, v) \<in> set ws. assign t v ch1 = Inr ch1)) \<and>
     (\<forall>t v. t \<notin> fst ` set ws \<longrightarrow> assign t v ch = Inr ch \<longrightarrow> assign t v ch1 = Inr ch1)"
proof (induction ws arbitrary: ch)
  case Nil
  then show ?case by simp
next
  case (Cons w ws)
  obtain t v where w: "w = (t, v)" by (cases w)
  show ?case
  proof (cases "assign t v ch")
    case (Inl e)
    with Cons.prems w show ?thesis by auto
  next
    case (Inr ch')
    from Cons.prems w Inr have rest: "assign_all ws ch' = (ch1, r)" by simp
    from Cons.prems w have dist: "distinct (map fst ws)" and fresh: "t \<notin> fst ` set ws" by auto
    note ih = Cons.IH [OF dist rest]
    have fix': "assign t v ch' = Inr ch'" using Inr by (rule assign_idem)
    with ih fresh have fix1: "assign t v ch1 = Inr ch1" by blast
    have again: "assign_all (w # ws) ch1 = (ch1, r)" using fix1 ih w by simp
    have keep: "assign t0 v0 ch1 = Inr ch1"
      if "t0 \<notin> fst ` set (w # ws)" and "assign t0 v0 ch = Inr ch" for t0 v0
    proof -
      from that w have "t0 \<noteq> t" and "t0 \<notin> fst ` set ws" by auto
      with that(2) Inr have "assign t0 v0 ch' = Inr ch'" by (metis assign_fixed_preserved)
      with ih \<open>t0 \<notin> fst ` set ws\<close> show ?thesis by blast
    qed
    show ?thesis using again fix1 ih keep w by auto
  qed
qed

lemma commit_again:
  assumes "distinct (map fst ws)" and "commit w ws cs = (cs1, r)"
  shows "commit w ws cs1 = (cs1, r)"
proof (cases "cs w")
  case None
  with assms(2) show ?thesis by (auto simp: commit_def)
next
  case (Some ch)
  obtain ch' r' where a: "assign_all ws ch = (ch', r')" by (cases "assign_all ws ch")
  from assign_all_again [OF assms(1) a] have again: "assign_all ws ch' = (ch', r')" by simp
  show ?thesis
  proof (cases r')
    case None
    have "assign_all ws (chart_update ch') = (chart_update ch', None)"
      using again None by (simp add: chart_update_def assign_all_painted)
    moreover have "chart_update (chart_update ch') = chart_update ch'"
      by (simp add: chart_update_def)
    ultimately show ?thesis using assms(2) Some a None by (auto simp: commit_def)
  next
    case (Some e)
    then show ?thesis using assms(2) \<open>cs w = Some ch\<close> a again by (auto simp: commit_def)
  qed
qed

lemma commit_defined: "commit w ws cs = (cs1, r) \<Longrightarrow> cs w \<noteq> None \<Longrightarrow> cs1 w \<noteq> None"
  by (auto simp: commit_def split: option.splits prod.splits)

lemma commit_frame: "commit w ws cs = (cs1, r) \<Longrightarrow> w' \<noteq> w \<Longrightarrow> cs1 w' = cs w'"
  by (auto simp: commit_def split: option.splits prod.splits)


lemma woc_const: "writes_own_chart w (\<lambda>cs. (cs, r))"
  by (simp add: writes_own_chart_def)

lemma woc_commit:
  assumes "distinct (map fst ws)"
  shows "writes_own_chart w (\<lambda>cs. commit w ws cs)"
  unfolding writes_own_chart_def
proof (intro allI impI conjI)
  fix cs cs1 r w'
  assume c: "commit w ws cs = (cs1, r)"
  show "commit w ws cs1 = (cs1, r)" using assms c by (rule commit_again)
  show "cs1 w' = cs w'" if "w' \<noteq> w" using c that by (rule commit_frame)
  show "cs1 w \<noteq> None" if "cs w \<noteq> None" using c that by (rule commit_defined)
qed

lemma woc_if:
  "writes_own_chart w f \<Longrightarrow> writes_own_chart w g \<Longrightarrow>
     writes_own_chart w (\<lambda>cs. if c then f cs else g cs)"
  by (cases c) simp_all

lemma woc_sum:
  "(\<And>e. writes_own_chart w (f e)) \<Longrightarrow> (\<And>x. writes_own_chart w (g x)) \<Longrightarrow>
     writes_own_chart w (\<lambda>cs. case s of Inl e \<Rightarrow> f e cs | Inr x \<Rightarrow> g x cs)"
  by (cases s) simp_all

lemma update_of_guarded:
  assumes "writes_own_chart w f"
  shows "update_of w (\<lambda>cs. if cs w = None then (cs, None) else f cs)"
  unfolding update_of_def
proof (intro allI impI)
  fix cs cs1 r
  assume run: "(if cs w = None then (cs, None) else f cs) = (cs1, r)"
  show "(if cs1 w = None then (cs1, None) else f cs1) = (cs1, r) \<and>
        (\<forall>w'. w' \<noteq> w \<longrightarrow> cs1 w' = cs w') \<and> (cs w = None \<longrightarrow> cs1 = cs \<and> r = None)"
  proof (cases "cs w = None")
    case True
    with run show ?thesis by auto
  next
    case False
    with run have "f cs = (cs1, r)" by simp
    with assms False have "cs1 w \<noteq> None" "f cs1 = (cs1, r)" "\<forall>w'. w' \<noteq> w \<longrightarrow> cs1 w' = cs w'"
      unfolding writes_own_chart_def by blast+
    with False show ?thesis by auto
  qed
qed

lemmas woc_rules = woc_if woc_sum woc_const woc_commit

section \<open>Every update function writes its own chart, repeatably\<close>

lemma updateWeatherDailyChart_update_of:
  "update_of weatherDailyChart (\<lambda>cs. updateWeatherDailyChart cs d)"
  unfolding updateWeatherDailyChart_def Let_def
  by (rule update_of_guarded) (intro woc_rules, simp)

lemma updateWeatherPrecipChart_update_of:
  "update_of weatherPrecipChart (\<lambda>cs. updateWeatherPrecipChart cs d)"
  unfolding updateWeatherPrecipChart_def Let_def
  by (rule update_of_guarded) (intro woc_rules, simp)

lemma updateWeatherWindChart_update_of:
  "update_of weatherWindChart (\<lambda>cs. updateWeatherWindChart cs d)"
  unfolding updateWeatherWindChart_def Let_def
  by (rule update_of_guarded) (intro woc_rules, simp)

lemma updateWeatherUvChart_update_of:
  "update_of weatherUvChart (\<lambda>cs. updateWeatherUvChart pf cs d)"
  unfolding updateWeatherUvChart_def Let_def
  by (rule update_of_guarded) (intro woc_rules, simp)

lemma updateWeatherHourlyTempChart_update_of:
  "update_of weatherHourlyTempChart (\<lambda>cs. updateWeatherHourlyTempChart pf cs d)"
  unfolding updateWeatherHourlyTempChart_def Let_def
  by (rule update_of_guarded) (intro woc_rules, simp)

lemma updateWeatherHourlyPrecipChart_update_of:
  "update_of weatherHourlyPrecipChart (\<lambda>cs. updateWeatherHourlyPrecipChart pf cs d)"
  unfolding updateWeatherHourlyPrecipChart_def Let_def
  by (rule update_of_guarded) (intro woc_rules, simp)

lemma updateWeatherHourlyWindChart_update_of:
  "update_of weatherHourlyWindChart (\<lambda>cs. updateWeatherHourlyWindChart pf cs d)"
  unfolding updateWeatherHourlyWindChart_def Let_def
  by (rule update_of_guarded) (intro woc_rules, simp)

lemma updateAirQualityAqiChart_update_of:
  "update_of airQualityAqiChart (\<lambda>cs. updateAirQualityAqiChart pf cs d)"
  unfolding updateAirQualityAqiChart_def Let_def
  by (rule update_of_guarded) (intro woc_rules, simp)

lemma updateAirQualityPollutantsChart_update_of:
  "update_of airQualityPollutantsChart (\<lambda>cs. updateAirQualityPollutantsChart pf cs d)"
  unfolding updateAirQualityPollutantsChart_def Let_def
  by (rule update_of_guarded) (intro woc_rules, simp)

lemma updateAirQualitySecondaryChart_update_of:
  "update_of airQualitySecondaryChart (\<lambda>cs. updateAirQualitySecondaryChart pf cs d)"
  unfolding updateAirQualitySecondaryChart_def Let_def
  by (rule update_of_guarded) (intro woc_rules, simp)

lemma updateMarineDailyWaveChart_update_of:
  "update_of marineDailyWaveChart (\<lambda>cs. updateMarineDailyWaveChart cs d)"
  unfolding updateMarineDailyWaveChart_def Let_def
  by (rule update_of_guarded) (intro woc_rules, simp)

lemma updateMarineDailyPeriodChart_update_of:
  "update_of marineDailyPeriodChart (\<lambda>cs. updateMarineDailyPeriodChart cs d)"
  unfolding updateMarineDailyPeriodChart_def Let_def
  by (rule update_of_guarded) (intro woc_rules, simp)

lemma updateMarineHourlyWaveChart_update_of:
  "update_of marineHourlyWaveChart (\<lambda>cs. updateMarineHourlyWaveChart pf cs d)"
  unfolding updateMarineHourlyWaveChart_def Let_def
  by (rule update_of_guarded) (intro woc_rules, simp)

lemma updateMarineHourlyPeriodChart_update_of:
  "update_of marineHourlyPeriodChart (\<lambda>cs. updateMarineHourlyPeriodChart pf cs d)"
  unfolding updateMarineHourlyPeriodChart_def Let_def
  by (rule update_of_guarded) (intro woc_rules, simp)

lemma updateSatelliteDailyRadiationChart_update_of:
  "update_of satelliteDailyRadiationChart (\<lambda>cs. updateSatelliteDailyRadiationChart pf cs d)"
  unfolding updateSatelliteDailyRadiationChart_def Let_def
  by (rule update_of_guarded) (intro woc_rules, simp)

lemma updateSatelliteDailyIrradianceChart_update_of:
  "update_of satelliteDailyIrradianceChart (\<lambda>cs. updateSatelliteDailyIrradianceChart pf cs d)"
  unfolding updateSatelliteDailyIrradianceChart_def Let_def
  by (rule update_of_guarded) (intro woc_rules, simp)

lemma updateClimateTempTrendsChart_update_of:
  "update_of climateTempTrendsChart (\<lambda>cs. updateClimateTempTrendsChart cs d)"
  unfolding updateClimateTempTrendsChart_def Let_def
  by (rule update_of_guarded) (intro woc_rules, simp)

lemma updateClimatePrecipHumidityChart_update_of:
  "update_of climatePrecipHumidityChart (\<lambda>cs. updateClimatePrecipHumidityChart cs d)"
  unfolding updateClimatePrecipHumidityChart_def Let_def
  by (rule update_of_guarded) (intro woc_rules, simp)

lemma updateClimateWindRadiationChart_update_of:
  "update_of climateWindRadiationChart (\<lambda>cs. updateClimateWindRadiationChart pf cs d)"
  unfolding updateClimateWindRadiationChart_def Let_def
  by (rule update_of_guarded) (intro woc_rules, simp)

lemmas update_of_each =
  updateWeatherDailyChart_update_of
  updateWeatherPrecipChart_update_of
  updateWeatherWindChart_update_of
  updateWeatherUvChart_update_of
  updateWeatherHourlyTempChart_update_of
  updateWeatherHourlyPrecipChart_update_of
  updateWeatherHourlyWindChart_update_of
  updateAirQualityAqiChart_update_of
  updateAirQualityPollutantsChart_update_of
  updateAirQualitySecondaryChart_update_of
  updateMarineDailyWaveChart_update_of
  updateMarineDailyPeriodChart_update_of
  updateMarineHourlyWaveChart_update_of
  updateMarineHourlyPeriodChart_update_of
  updateSatelliteDailyRadiationChart_update_of
  updateSatelliteDailyIrradianceChart_update_of
  updateClimateTempTrendsChart_update_of
  updateClimatePrecipHumidityChart_update_of
  updateClimateWindRadiationChart_update_of

lemma update_chart_update_of: "update_of w (\<lambda>cs. update_chart pf w cs d)"
  by (cases w) (simp_all add: update_chart_def update_of_each)

lemma update_chart_frame:
  "update_chart pf w cs d = (cs1, r) \<Longrightarrow> w' \<noteq> w \<Longrightarrow> cs1 w' = cs w'"
  using update_chart_update_of [of w pf d] unfolding update_of_def by blast

section \<open>Claims about the chart registry\<close>

text \<open>
  C9. Applying the same series to a widget twice is idempotent: for every chart, every
  payload and every state of the chart variables, running the chart's update function a
  second time with the same payload, on the state the first run left, leaves that state
  (labels, values and what is painted) as it is and ends as the first run ended.
\<close>

theorem update_chart_twice:
  "update_chart pf w (fst (update_chart pf w cs d)) d = update_chart pf w cs d"
proof -
  obtain cs1 r where first: "update_chart pf w cs d = (cs1, r)"
    by (cases "update_chart pf w cs d")
  with update_chart_update_of [of w pf d] have "update_chart pf w cs1 d = (cs1, r)"
    unfolding update_of_def by blast
  with first show ?thesis by simp
qed

text \<open>
  C10. Every chart update function is a total no-op while its chart variable is
  \<^verbatim>\<open>null\<close>: for every payload it returns without throwing and leaves all chart variables
  as they are.
\<close>

theorem update_chart_without_chart:
  "cs w = None \<Longrightarrow> update_chart pf w cs d = (cs, None)"
proof -
  assume absent: "cs w = None"
  obtain cs1 r where run: "update_chart pf w cs d = (cs1, r)"
    by (cases "update_chart pf w cs d")
  with update_chart_update_of [of w pf d] absent have "cs1 = cs \<and> r = None"
    unfolding update_of_def by blast
  with run show ?thesis by simp
qed

theorem update_chart_without_chart_witness:
  "\<forall>pf. update_chart pf weatherPrecipChart no_charts
          (JArr [JObj [(''valid_date'', JStr ''2025-11-12''), (''precipitation_sum'', JNum 3)]])
        = (no_charts, None)"
  by (rule allI, rule update_chart_without_chart) (simp add: no_charts_def)

section \<open>What the daily transformers put on the chart\<close>


















section \<open>Loaders: failures and empty payloads\<close>

lemmas update_defs =
  updateWeatherDailyChart_def updateWeatherPrecipChart_def
  updateWeatherWindChart_def updateWeatherUvChart_def updateWeatherHourlyTempChart_def
  updateWeatherHourlyPrecipChart_def updateWeatherHourlyWindChart_def updateAirQualityAqiChart_def
  updateAirQualityPollutantsChart_def updateAirQualitySecondaryChart_def updateMarineDailyWaveChart_def
  updateMarineDailyPeriodChart_def updateMarineHourlyWaveChart_def updateMarineHourlyPeriodChart_def
  updateSatelliteDailyRadiationChart_def updateSatelliteDailyIrradianceChart_def
  updateClimateTempTrendsChart_def updateClimatePrecipHumidityChart_def updateClimateWindRadiationChart_def

lemmas show_defs =
  showCurrentWeatherError_def showCurrentAirQualityError_def showCurrentMarineError_def
  showClimateError_def

lemma update_chart_empty: "update_chart pf w cs (JArr []) = (cs, None)"
  by (cases w) (simp_all add: update_chart_def update_defs js_prop_def)

lemma showError_charts [simp]:
  "charts (fst (showError c m pg)) = charts pg" "snd (showError c m pg) = None"
  by (simp_all add: showError_def split: option.splits)

lemma on_error_charts [simp]:
  "charts (fst (on_error l e pg)) = charts pg" "snd (on_error l e pg) = None"
  by (cases l; simp add: on_error_def show_defs)+

lemma on_no_data_charts [simp]:
  "charts (fst (on_no_data l pg)) = charts pg" "snd (on_no_data l pg) = None"
  by (cases l; simp add: on_no_data_def show_defs)+

lemma updateCards_charts [simp]: "charts (fst (updateCards cb c d pg)) = charts pg"
  by (simp add: updateCards_def split: option.splits)

lemma try_catch_on_error [simp]:
  "snd (try_catch body (on_error l)) = None"
  "charts (fst (try_catch body (on_error l))) = charts (fst body)"
  by (cases body; cases "snd body"; simp add: try_catch_def)+

lemma load_settle_fulfilled: "snd (load_settle pf cb l res pg) = None"
  by (simp add: load_settle_def)

lemma fetchData_settle_ok:
  assumes "200 \<le> status" "status \<le> 299" "truthy (js_prop body ''success'')"
  shows "fetchData_settle (Response status text (Some body)) pg = (pg, Inr body)"
proof -
  have "\<not> nullish body" using assms(3) by (auto simp: nullish_def js_prop_def)
  with assms show ?thesis by (simp add: fetchData_settle_def js_get_def)
qed

lemma fetchData_settle_page:
  "charts (fst (fetchData_settle res pg)) = charts pg"
  "containers (fst (fetchData_settle res pg)) = containers pg"
  "pending (fst (fetchData_settle res pg)) = pending pg"
  "activeLocationId (fst (fetchData_settle res pg)) = activeLocationId pg"
  by (auto simp: fetchData_settle_def Let_def split: http_result.splits option.splits sum.splits)


lemma on_error_container:
  "on_error l e pg =
     (case error_container l of
        None \<Rightarrow> (pg, None)
      | Some c \<Rightarrow> showError c (error_message e) pg)"
  by (cases l) (simp_all add: on_error_def error_container_def show_defs)

lemma error_container_domain:
  "error_container l = Some c \<Longrightarrow> container_domain c = loader_domain l"
  by (cases l) (auto simp: error_container_def container_domain_def loader_domain_def)

lemma load_settle_failed:
  assumes "fetchData_settle res pg = (pg1, Inl e)"
  shows "load_settle pf cb l res pg = on_error l e pg1"
  using assms by (simp add: load_settle_def try_catch_def)

lemma on_error_other_containers:
  "container_domain c \<noteq> loader_domain l \<Longrightarrow> containers (fst (on_error l e pg)) c = containers pg c"
proof (cases "error_container l")
  case None
  then show ?thesis by (simp add: on_error_container)
next
  case (Some c')
  assume "container_domain c \<noteq> loader_domain l"
  with Some error_container_domain have "c \<noteq> c'" by blast
  with Some show ?thesis by (simp add: on_error_container showError_def split: option.splits)
qed

lemma load_start_page:
  "charts (load_start l pg) = charts pg"
  "container_domain c \<noteq> loader_domain l \<Longrightarrow> containers (load_start l pg) c = containers pg c"
  by (simp_all add: load_start_def try_catch_def on_error_other_containers
        split: option.splits sum.splits)

text \<open>
  C3 (as amended). When the fetch of a loader fails (no response, a non-2xx status, a
  body that is not JSON, \<^verbatim>\<open>success: false\<close>), the loader's promise is still fulfilled,
  no chart variable changes (so the series of every domain stay as they were), and no
  container of another domain changes. The error is shown only by the loaders that have
  a cards container (current weather, current air quality, current marine, climate):
  there the container, if it is in the document, gets the error box with the error's
  message. The other six loaders (daily and hourly weather, hourly air quality, daily
  and hourly marine, satellite) write the error to the console and show nothing. A
  loader's start (where a missing token fails the fetch before any request) likewise
  changes no chart and no container of another domain.
\<close>

theorem failed_fetch_is_contained:
  assumes failed: "fetchData_settle res pg = (pg1, Inl e)"
  shows "snd (load_settle pf cb l res pg) = None \<and>
         charts (fst (load_settle pf cb l res pg)) = charts pg \<and>
         (\<forall>c. container_domain c \<noteq> loader_domain l \<longrightarrow>
              containers (fst (load_settle pf cb l res pg)) c = containers pg c) \<and>
         containers (fst (load_settle pf cb l res pg)) =
           (case error_container l of
              None \<Rightarrow> containers pg
            | Some c \<Rightarrow>
                (if containers pg c = None then containers pg
                 else (containers pg)(c \<mapsto> ErrorBox (error_message e)))) \<and>
         charts (load_start l pg) = charts pg \<and>
         (\<forall>c. container_domain c \<noteq> loader_domain l \<longrightarrow>
              containers (load_start l pg) c = containers pg c)"
proof -
  have pg1: "charts pg1 = charts pg" "containers pg1 = containers pg"
    using fetchData_settle_page(1,2) [of res pg] failed by simp_all
  have run: "load_settle pf cb l res pg = on_error l e pg1"
    using failed by (rule load_settle_failed)
  have shown: "containers (fst (on_error l e pg1)) =
      (case error_container l of
         None \<Rightarrow> containers pg
       | Some c \<Rightarrow>
           (if containers pg c = None then containers pg
            else (containers pg)(c \<mapsto> ErrorBox (error_message e))))"
    using pg1(2) by (auto simp: on_error_container showError_def split: option.splits)
  have other: "containers (fst (on_error l e pg1)) c = containers pg c"
    if "container_domain c \<noteq> loader_domain l" for c
  proof (cases "error_container l")
    case None
    then show ?thesis using shown by simp
  next
    case (Some c')
    with that error_container_domain have "c \<noteq> c'" by blast
    with Some shown show ?thesis by (simp split: if_splits)
  qed
  show ?thesis using run pg1(1) shown other load_start_page by simp
qed

lemma update_empty_each:
  "updateWeatherDailyChart cs (JArr []) = (cs, None)"
  "updateWeatherPrecipChart cs (JArr []) = (cs, None)"
  "updateWeatherWindChart cs (JArr []) = (cs, None)"
  "updateWeatherUvChart pf cs (JArr []) = (cs, None)"
  "updateWeatherHourlyTempChart pf cs (JArr []) = (cs, None)"
  "updateWeatherHourlyPrecipChart pf cs (JArr []) = (cs, None)"
  "updateWeatherHourlyWindChart pf cs (JArr []) = (cs, None)"
  "updateAirQualityAqiChart pf cs (JArr []) = (cs, None)"
  "updateAirQualityPollutantsChart pf cs (JArr []) = (cs, None)"
  "updateAirQualitySecondaryChart pf cs (JArr []) = (cs, None)"
  "updateMarineDailyWaveChart cs (JArr []) = (cs, None)"
  "updateMarineDailyPeriodChart cs (JArr []) = (cs, None)"
  "updateMarineHourlyWaveChart pf cs (JArr []) = (cs, None)"
  "updateMarineHourlyPeriodChart pf cs (JArr []) = (cs, None)"
  "updateSatelliteDailyRadiationChart pf cs (JArr []) = (cs, None)"
  "updateSatelliteDailyIrradianceChart pf cs (JArr []) = (cs, None)"
  "updateClimateTempTrendsChart cs (JArr []) = (cs, None)"
  "updateClimatePrecipHumidityChart cs (JArr []) = (cs, None)"
  "updateClimateWindRadiationChart pf cs (JArr []) = (cs, None)"
  by (simp_all add: update_defs js_prop_def)

lemma in_order_charts_only:
  "\<forall>f \<in> set fs. f pg = (pg, None) \<Longrightarrow> in_order fs pg = (pg, None)"
  by (induction fs) auto

lemma same_outcome:
  "(case x of (p, None) \<Rightarrow> (p, None) | (p, Some e) \<Rightarrow> (p, Some e)) = x"
  by (cases x; cases "snd x") auto

lemma on_data_empty:
  "charts (fst (in_order (on_data pf cb l (JArr [])) pg)) = charts pg \<and>
   (error_container l = None \<longrightarrow> in_order (on_data pf cb l (JArr [])) pg = (pg, None))"
proof -
  have e: "on_charts (\<lambda>cs. f cs) p = (p, None)" if "\<And>cs. f cs = (cs, None)" for f p
    using that by (simp add: on_charts_def)
  show ?thesis
    by (cases l)
       (simp_all add: on_data_def error_container_def e update_empty_each same_outcome)
qed

text \<open>
  C4 (as amended). For a response body with \<^verbatim>\<open>success: true\<close> and \<^verbatim>\<open>data: []\<close> every chart
  update function returns at its guard (\<^verbatim>\<open>apiData.length === 0\<close>, or the missing
  \<^verbatim>\<open>parameters\<close> or \<^verbatim>\<open>daily_data\<close>): the loader's promise is fulfilled, no chart variable
  changes, so every widget keeps the labels and values it had, and a loader without a
  cards container leaves the whole page as it was (no error is shown).
\<close>

theorem empty_data_keeps_charts:
  assumes ok: "200 \<le> status" "status \<le> 299" "truthy (js_prop body ''success'')"
    and empty: "js_prop body ''data'' = JArr []"
  shows "update_chart pf w cs (JArr []) = (cs, None) \<and>
         snd (load_settle pf cb l (Response status text (Some body)) pg) = None \<and>
         charts (fst (load_settle pf cb l (Response status text (Some body)) pg)) = charts pg \<and>
         (error_container l = None \<longrightarrow>
            fst (load_settle pf cb l (Response status text (Some body)) pg) = pg)"
proof -
  have f: "fetchData_settle (Response status text (Some body)) pg = (pg, Inr body)"
    using ok by (rule fetchData_settle_ok)
  have t: "truthy body" using ok(3) by (cases body) (auto simp: js_prop_def)
  have run: "load_settle pf cb l (Response status text (Some body)) pg =
      try_catch (in_order (on_data pf cb l (JArr [])) pg) (on_error l)"
    using f t empty by (simp add: load_settle_def)
  have "charts (fst (load_settle pf cb l (Response status text (Some body)) pg)) = charts pg"
    unfolding run using on_data_empty [of pf cb l pg] by simp
  moreover have "fst (load_settle pf cb l (Response status text (Some body)) pg) = pg"
    if "error_container l = None"
    unfolding run using on_data_empty [of pf cb l pg] that by (simp add: try_catch_def)
  ultimately show ?thesis
    using update_chart_empty load_settle_fulfilled by blast
qed


theorem empty_data_keeps_charts_witness:
  "\<forall>pf cb cs.
     update_chart pf weatherDailyChart cs (JArr []) = (cs, None) \<and>
     snd (load_settle pf cb loadDailyWeatherData empty_response example_page) = None \<and>
     charts (fst (load_settle pf cb loadDailyWeatherData empty_response example_page))
       = charts example_page \<and>
     fst (load_settle pf cb loadDailyWeatherData empty_response example_page) = example_page"
proof (intro allI)
  fix pf cb cs
  have "200 \<le> (200::nat)" "(200::nat) \<le> 299"
    "truthy (js_prop (JObj [(''success'', JBool True), (''data'', JArr [])]) ''success'')"
    "js_prop (JObj [(''success'', JBool True), (''data'', JArr [])]) ''data'' = JArr []"
    by (simp_all add: js_prop_def)
  from empty_data_keeps_charts [OF this, of pf weatherDailyChart cs cb loadDailyWeatherData "''OK''" example_page]
  show "update_chart pf weatherDailyChart cs (JArr []) = (cs, None) \<and>
     snd (load_settle pf cb loadDailyWeatherData empty_response example_page) = None \<and>
     charts (fst (load_settle pf cb loadDailyWeatherData empty_response example_page))
       = charts example_page \<and>
     fst (load_settle pf cb loadDailyWeatherData empty_response example_page) = example_page"
    by (simp add: empty_response_def error_container_def)
qed

text \<open>
  The claim as written has the widget end with no labels, in a no-data state. A daily
  chart that shows Nov 12 with 30 degrees still shows them after the next cycle's
  response \<^verbatim>\<open>{success: true, data: []}\<close>.
\<close>

theorem empty_data_counterexample:
  "\<forall>pf cb.
     shown_label (charts (run pf cb example_page
        [RefreshClick, Settle 1 (daily_response 30), RefreshClick, Settle 10 empty_response]))
        weatherDailyChart 0 = Some (JStr ''Nov 12'') \<and>
     shown_point (charts (run pf cb example_page
        [RefreshClick, Settle 1 (daily_response 30), RefreshClick, Settle 10 empty_response]))
        weatherDailyChart 0 0 = Some (JNum 30) \<and>
     fst (pending (run pf cb example_page [RefreshClick, Settle 1 (daily_response 30), RefreshClick]) ! 10)
        = loadDailyWeatherData"
  by (intro allI) code_simp


lemma unavailable_fails:
  "fetchData_settle unavailable_response pg = (pg, Inl (Error (Text ''service unavailable'')))"
  by (simp add: fetchData_settle_def unavailable_response_def js_get_def js_prop_def nullish_def
        js_or_def new_Error_def)

text \<open>The end-to-end scenario of the specification: air quality answers 503.\<close>

theorem failed_fetch_is_contained_witness:
  "\<forall>pf cb.
     snd (load_settle pf cb loadCurrentAirQualityData unavailable_response example_page) = None \<and>
     charts (fst (load_settle pf cb loadCurrentAirQualityData unavailable_response example_page))
       = charts example_page \<and>
     containers (fst (load_settle pf cb loadCurrentAirQualityData unavailable_response example_page))
       = (containers example_page)(currentAirQualityCards \<mapsto> ErrorBox (Text ''service unavailable''))"
proof (intro allI)
  fix pf cb
  from failed_fetch_is_contained [OF unavailable_fails, of pf cb loadCurrentAirQualityData example_page]
  show "snd (load_settle pf cb loadCurrentAirQualityData unavailable_response example_page) = None \<and>
     charts (fst (load_settle pf cb loadCurrentAirQualityData unavailable_response example_page))
       = charts example_page \<and>
     containers (fst (load_settle pf cb loadCurrentAirQualityData unavailable_response example_page))
       = (containers example_page)(currentAirQualityCards \<mapsto> ErrorBox (Text ''service unavailable''))"
    by (simp add: error_container_def error_message_def example_page_def)
qed

text \<open>
  The claim as written has each domain's error rendered into that domain's widget area.
  When the satellite request fails, every container still shows what the page was served
  with: the error is rendered nowhere.
\<close>

theorem satellite_error_counterexample:
  "\<forall>pf cb c.
     containers (fst (load_settle pf cb loadDailySatelliteData unavailable_response example_page)) c
       = Some Initial"
  by (simp add: load_settle_failed [OF unavailable_fails] on_error_container error_container_def
        example_page_def)

section \<open>The client and the refresh cycle\<close>

lemma showError_rest [simp]:
  "pending (fst (showError c m pg)) = pending pg"
  "access_token (fst (showError c m pg)) = access_token pg"
  by (simp_all add: showError_def split: option.splits)

lemma on_error_rest [simp]:
  "pending (fst (on_error l e pg)) = pending pg"
  "access_token (fst (on_error l e pg)) = access_token pg"
  by (simp_all add: on_error_container split: option.splits)

lemma client_call_no_token:
  "token = None \<or> token = Some [] \<Longrightarrow>
     client_call m token locationId further = Inl (new_Error (JStr ''No authentication token found''))"
  by (auto simp: client_call_def fetchData_request_def)

lemma load_start_no_token:
  assumes "access_token pg = None \<or> access_token pg = Some []"
  shows "pending (load_start l pg) = pending pg \<and> access_token (load_start l pg) = access_token pg"
  using client_call_no_token [OF assms]
  by (simp add: load_start_def try_catch_def split: option.splits)

lemma loaders_no_token:
  "access_token pg = None \<or> access_token pg = Some [] \<Longrightarrow>
     pending (foldl (\<lambda>p l. load_start l p) pg ls) = pending pg"
proof (induction ls arbitrary: pg)
  case Nil
  then show ?case by simp
next
  case (Cons l ls)
  from load_start_no_token [OF Cons.prems, of l]
  have same: "pending (load_start l pg) = pending pg"
    and tok: "access_token (load_start l pg) = access_token pg" by simp_all
  from tok Cons.prems have "access_token (load_start l pg) = None \<or> access_token (load_start l pg) = Some []"
    by simp
  then have "pending (foldl (\<lambda>p l. load_start l p) (load_start l pg) ls) = pending (load_start l pg)"
    by (rule Cons.IH)
  with same show ?case by simp
qed

text \<open>
  C6. When no bearer credential is stored (\<^verbatim>\<open>localStorage.getItem("access_token")\<close> is
  \<^verbatim>\<open>null\<close>, or the empty string, which \<^verbatim>\<open>!token\<close> treats alike), every method of the client
  fails at once with the error \<^verbatim>\<open>No authentication token found\<close> and builds no
  request; a loader and a whole refresh put nothing in flight.
\<close>

theorem no_token_no_request:
  assumes "access_token pg = None \<or> access_token pg = Some []"
  shows "client_call m (access_token pg) locationId further
           = Inl (new_Error (JStr ''No authentication token found'')) \<and>
         pending (load_start l pg) = pending pg \<and>
         pending (refreshAllCharts pg) = pending pg"
proof -
  have "access_token (pg\<lparr>refreshBtn := map_option (\<lambda>rotating. True) (refreshBtn pg)\<rparr>) = None \<or>
        access_token (pg\<lparr>refreshBtn := map_option (\<lambda>rotating. True) (refreshBtn pg)\<rparr>) = Some []"
    using assms by simp
  from loaders_no_token [OF this, of all_loaders]
  have "pending (refreshAllCharts pg) = pending pg"
    by (simp add: refreshAllCharts_def Let_def)
  with client_call_no_token [OF assms] load_start_no_token [OF assms] show ?thesis by simp
qed

theorem no_token_no_request_witness:
  "client_call fetchAirQualityCurrentData (access_token (example_page\<lparr>access_token := None\<rparr>)) 10 []
     = Inl (new_Error (JStr ''No authentication token found'')) \<and>
   pending (load_start loadCurrentAirQualityData (example_page\<lparr>access_token := None\<rparr>)) = [] \<and>
   pending (refreshAllCharts (example_page\<lparr>access_token := None\<rparr>)) = []"
proof -
  have "access_token (example_page\<lparr>access_token := None\<rparr>) = None \<or>
        access_token (example_page\<lparr>access_token := None\<rparr>) = Some []" by simp
  from no_token_no_request [OF this, of fetchAirQualityCurrentData 10 "[]" loadCurrentAirQualityData]
  show ?thesis by (simp add: example_page_def)
qed

lemma load_start_launches:
  assumes "activeLocationId pg = Some a" "a \<noteq> 0"
    and "find (\<lambda>ul. user_location_id ul = a) (userLocations pg) = Some ul"
    and "access_token pg = Some t" "t \<noteq> []"
  shows "load_start l pg =
     pg\<lparr>pending := pending pg @ [(l, bearer_request t (endpoint (fetch_method l) (location_id ul)))]\<rparr>"
  using assms by (simp add: load_start_def client_call_def fetchData_request_def)

lemma loaders_launch:
  assumes "activeLocationId pg = Some a" "a \<noteq> 0"
    and "find (\<lambda>ul. user_location_id ul = a) (userLocations pg) = Some ul"
    and "access_token pg = Some t" "t \<noteq> []"
  shows "foldl (\<lambda>p l. load_start l p) pg ls =
     pg\<lparr>pending := pending pg @
        map (\<lambda>l. (l, bearer_request t (endpoint (fetch_method l) (location_id ul)))) ls\<rparr>"
  using assms
proof (induction ls arbitrary: pg)
  case Nil
  then show ?case by simp
next
  case (Cons l ls)
  let ?pg = "pg\<lparr>pending := pending pg @ [(l, bearer_request t (endpoint (fetch_method l) (location_id ul)))]\<rparr>"
  have first: "load_start l pg = ?pg" using Cons.prems by (rule load_start_launches)
  have "foldl (\<lambda>p l. load_start l p) ?pg ls =
     ?pg\<lparr>pending := pending ?pg @
        map (\<lambda>l. (l, bearer_request t (endpoint (fetch_method l) (location_id ul)))) ls\<rparr>"
    using Cons.prems by (intro Cons.IH) simp_all
  with first show ?case by simp
qed

text \<open>
  C2 (as amended). The refresh entry point keeps no state of its own: every invocation
  of \<^verbatim>\<open>refreshAllCharts\<close> starts all ten loaders, whether or not requests of an earlier
  invocation are still in flight. With a saved location selected and a token stored it
  adds one request per loader, in the loaders' order, behind those already in flight.
\<close>

theorem refresh_always_launches:
  assumes "activeLocationId pg = Some a" "a \<noteq> 0"
    and "find (\<lambda>ul. user_location_id ul = a) (userLocations pg) = Some ul"
    and "access_token pg = Some t" "t \<noteq> []"
  shows "pending (refreshAllCharts pg) =
           pending pg @
           map (\<lambda>l. (l, bearer_request t (endpoint (fetch_method l) (location_id ul)))) all_loaders"
proof -
  let ?pg = "pg\<lparr>refreshBtn := map_option (\<lambda>rotating. True) (refreshBtn pg)\<rparr>"
  have "foldl (\<lambda>p l. load_start l p) ?pg all_loaders =
     ?pg\<lparr>pending := pending ?pg @
        map (\<lambda>l. (l, bearer_request t (endpoint (fetch_method l) (location_id ul)))) all_loaders\<rparr>"
    using assms by (intro loaders_launch) simp_all
  then show ?thesis by (simp add: refreshAllCharts_def Let_def)
qed

text \<open>
  A refresh while the ten requests of the previous refresh are in flight.
\<close>

theorem refresh_always_launches_witness:
  "pending (refreshAllCharts (refreshAllCharts example_page)) =
     pending (refreshAllCharts example_page) @
     map (\<lambda>l. (l, bearer_request ''token'' (endpoint (fetch_method l) 10))) all_loaders"
proof -
  have "pending (refreshAllCharts (refreshAllCharts example_page)) =
     pending (refreshAllCharts example_page) @
     map (\<lambda>l. (l, bearer_request ''token'' (endpoint (fetch_method l)
        (location_id \<lparr>user_location_id = 1, location_id = 10, is_primary = True\<rparr>)))) all_loaders"
    by (rule refresh_always_launches [where a = 1]) code_simp+
  then show ?thesis by simp
qed

text \<open>
  The claim as written makes a refresh during a running cycle a no-op that launches no
  fetch. A second refresh, or an interval tick right after a click, sends ten more
  requests while the first ten are in flight.
\<close>

theorem refresh_while_pending_counterexample:
  "\<forall>pf cb.
     length (pending (refreshAllCharts example_page)) = 10 \<and>
     length (pending (refreshAllCharts (refreshAllCharts example_page))) = 20 \<and>
     length (pending (run pf cb example_page [RefreshClick, IntervalTick])) = 20"
  by (intro allI) code_simp


text \<open>
  C7. The claim has the model identifier and the date range carried in the climate
  request. \<^verbatim>\<open>loadClimateProjectionData\<close> passes them, but \<^verbatim>\<open>fetchClimateProjection\<close>
  declares \<^verbatim>\<open>locationId\<close> only: the request it issues is a GET of
  \<^verbatim>\<open>/climate/projection/10\<close> with no model and no dates in it.
\<close>

theorem climate_request_drops_model_and_dates:
  "client_call fetchClimateProjection (Some ''token'') 10
       [JStr ''EC_Earth3P_HR'', JStr ''2022-01-01'', JStr ''2026-12-31'']
     = Inr \<lparr>url = ''http://localhost:8000/climate/projection/10'', http_method = ''GET'',
            headers = [(''Authorization'', ''Bearer token''),
                       (''Content-Type'', ''application/json'')]\<rparr> \<and>
   pending (load_start loadClimateProjectionData example_page)
     = [(loadClimateProjectionData,
         \<lparr>url = ''http://localhost:8000/climate/projection/10'', http_method = ''GET'',
          headers = [(''Authorization'', ''Bearer token''),
                     (''Content-Type'', ''application/json'')]\<rparr>)]"
  by code_simp



















end
